theory Spec2Isabelle
  imports Complex_Main "HOL-Library.Signed_Division"
begin

section \<open>Python values and exceptions\<close>

text \<open>
  The program is \<^verbatim>\<open>exif_watermarker_min.py\<close>. Exceptions of the source are values:
  a computation that may raise returns \<open>py_error + 'a\<close>, \<open>Inl\<close> carrying the exception.
  Every constructor below is a subclass of Python's \<^verbatim>\<open>Exception\<close>, which is what each
  \<^verbatim>\<open>except Exception\<close> of the source catches.

  A Python \<^verbatim>\<open>str\<close> is modelled as a \<open>string\<close> whose characters are the code points
  U+0000 .. U+00FF; \<open>length\<close> is Python's \<^verbatim>\<open>len\<close> on such a string.
\<close>

datatype py_error =
    ValueError
  | OverflowError
  | IndexError
  | OSError
  | UnicodeDecodeError
  | OtherException string

section \<open>Layout: \<^verbatim>\<open>calc_pos\<close>\<close>

text \<open>
  \<^verbatim>\<open>calc_pos(pos_name, img_size, text_size, margin=10)\<close>. The margin is an explicit
  argument; a call that leaves it out passes \<open>default_margin\<close>. Python's \<^verbatim>\<open>//\<close> on
  integers is floor division, which is \<open>div\<close> on \<open>int\<close>.
\<close>

definition default_margin :: int where
  "default_margin = 10"

definition calc_pos :: "string \<Rightarrow> int \<times> int \<Rightarrow> int \<times> int \<Rightarrow> int \<Rightarrow> int \<times> int" where
  "calc_pos pos_name img_size text_size margin =
     (case img_size of (iw, ih) \<Rightarrow> case text_size of (tw, th) \<Rightarrow>
        if pos_name = ''top-left'' then (margin, margin)
        else if pos_name = ''top-right'' then (iw - tw - margin, margin)
        else if pos_name = ''bottom-left'' then (margin, ih - th - margin)
        else if pos_name = ''center'' then ((iw - tw) div 2, (ih - th) div 2)
        else (iw - tw - margin, ih - th - margin))"

section \<open>Text measurement: \<^verbatim>\<open>_measure_text\<close>\<close>

text \<open>
  The drawing context and the font are objects of the imaging library. Each measurement
  call either raises or returns its tuple, so each is a function into \<open>py_error + _\<close>.
  \<^verbatim>\<open>draw.textbbox((0,0), text, font=font)\<close> and \<^verbatim>\<open>draw.textsize(text, font=font)\<close>
  take the font; \<^verbatim>\<open>font.getsize(text)\<close> is a method of the font. The drawing context
  also has \<^verbatim>\<open>draw.text(xy, text, font=font, fill=fill)\<close>, which draws or raises.
\<close>

record font_obj =
  getsize :: "string \<Rightarrow> py_error + (int \<times> int)"

record draw_obj =
  textbbox :: "font_obj \<Rightarrow> string \<Rightarrow> py_error + (int \<times> int \<times> int \<times> int)"
  textsize :: "font_obj \<Rightarrow> string \<Rightarrow> py_error + (int \<times> int)"
  draw_text :: "int \<times> int \<Rightarrow> string \<Rightarrow> font_obj \<Rightarrow> int \<times> int \<times> int \<Rightarrow> py_error + unit"

definition measure_text :: "draw_obj \<Rightarrow> string \<Rightarrow> font_obj \<Rightarrow> py_error + (int \<times> int)" where
  "measure_text draw text font =
     (case textbbox draw font text of
        Inr (l, t, r, b) \<Rightarrow> Inr (r - l, b - t)
      | Inl _ \<Rightarrow>
          (case getsize font text of
             Inr sz \<Rightarrow> Inr sz
           | Inl _ \<Rightarrow>
               (case textsize draw font text of
                  Inr sz \<Rightarrow> Inr sz
                | Inl _ \<Rightarrow> Inr (int (length text) * 8, 16))))"

text \<open>A drawing context and a font none of whose measurement calls works.\<close>

definition broken_font :: font_obj where
  "broken_font = \<lparr> getsize = (\<lambda>_. Inl (OtherException ''AttributeError'')) \<rparr>"

definition broken_draw :: draw_obj where
  "broken_draw = \<lparr> textbbox = (\<lambda>_ _. Inl (OtherException ''AttributeError'')),
                    textsize = (\<lambda>_ _. Inl (OtherException ''AttributeError'')),
                    draw_text = (\<lambda>_ _ _ _. Inr ()) \<rparr>"

text \<open>Objects of three library generations: one tier works in each.\<close>

definition bbox_draw :: draw_obj where
  "bbox_draw = \<lparr> textbbox = (\<lambda>_ text. Inr (0, 2, 6 * int (length text), 13)),
                  textsize = (\<lambda>_ _. Inl (OtherException ''AttributeError'')),
                  draw_text = (\<lambda>_ _ _ _. Inr ()) \<rparr>"

definition getsize_font :: font_obj where
  "getsize_font = \<lparr> getsize = (\<lambda>text. Inr (6 * int (length text), 11)) \<rparr>"

definition textsize_draw :: draw_obj where
  "textsize_draw = \<lparr> textbbox = (\<lambda>_ _. Inl (OtherException ''AttributeError'')),
                      textsize = (\<lambda>_ text. Inr (7 * int (length text), 12)),
                      draw_text = (\<lambda>_ _ _ _. Inr ()) \<rparr>"

section \<open>Metadata values\<close>

text \<open>
  What a metadata field may hold, as far as the source tells values apart: \<^verbatim>\<open>None\<close>, a
  \<^verbatim>\<open>str\<close>, a \<^verbatim>\<open>bytes\<close> or \<^verbatim>\<open>bytearray\<close> (a list of bytes), or any other object, of
  which the source only ever takes the truth value and \<^verbatim>\<open>str(...)\<close>; \<open>PyObject\<close>
  carries both (an integer 7 is \<open>PyObject True ''7''\<close>).
\<close>

datatype pyval = PyNone | PyStr string | PyBytes string | PyObject bool string

fun py_truthy :: "pyval \<Rightarrow> bool" where
  "py_truthy PyNone = False"
| "py_truthy (PyStr s) = (s \<noteq> [])"
| "py_truthy (PyBytes b) = (b \<noteq> [])"
| "py_truthy (PyObject t _) = t"

fun isinstance_str :: "pyval \<Rightarrow> bool" where
  "isinstance_str (PyStr _) = True"
| "isinstance_str _ = False"

section \<open>String operations of the Python library\<close>

definition code_of :: "char \<Rightarrow> nat" where
  "code_of c = of_char c"

text \<open>
  \<^verbatim>\<open>str.isspace\<close> on U+0000 .. U+00FF: TAB, LF, VT, FF, CR, the separators
  U+001C .. U+001F, SPACE, NEL (U+0085) and NBSP (U+00A0). \<^verbatim>\<open>str.strip()\<close> removes
  such characters from both ends.
\<close>

definition is_space :: "char \<Rightarrow> bool" where
  "is_space c = (let n = code_of c in
     (9 \<le> n \<and> n \<le> 13) \<or> (28 \<le> n \<and> n \<le> 32) \<or> n = 133 \<or> n = 160)"

definition py_strip :: "string \<Rightarrow> string" where
  "py_strip s = rev (dropWhile is_space (rev (dropWhile is_space s)))"

text \<open>
  \<^verbatim>\<open>s.split(sep)\<close> for a separator of one character: the result is never empty, and
  two adjacent separators enclose an empty string.
\<close>

fun py_split :: "char \<Rightarrow> string \<Rightarrow> string list" where
  "py_split sep [] = [[]]"
| "py_split sep (c # cs) =
     (if c = sep then [] # py_split sep cs
      else (case py_split sep cs of
              [] \<Rightarrow> [[c]]
            | p # ps \<Rightarrow> (c # p) # ps))"

text \<open>\<^verbatim>\<open>s.replace(old, new)\<close> for single characters.\<close>

definition py_replace :: "char \<Rightarrow> char \<Rightarrow> string \<Rightarrow> string" where
  "py_replace old new s = map (\<lambda>c. if c = old then new else c) s"

text \<open>
  \<^verbatim>\<open>str.lower()\<close> on U+0000 .. U+00FF: the letters A .. Z, and U+00C0 .. U+00DE
  without the multiplication sign U+00D7, move up by 32.
\<close>

definition lower_char :: "char \<Rightarrow> char" where
  "lower_char c = (let n = code_of c in
     if (65 \<le> n \<and> n \<le> 90) \<or> (192 \<le> n \<and> n \<le> 222 \<and> n \<noteq> 215)
     then char_of (n + 32) else c)"

definition py_lower :: "string \<Rightarrow> string" where
  "py_lower s = map lower_char s"

section \<open>\<^verbatim>\<open>int(s)\<close> and \<^verbatim>\<open>int(s, 16)\<close>\<close>

text \<open>
  The integer parser of CPython on a \<^verbatim>\<open>str\<close>: white space at both ends, an optional
  sign, for base 16 an optional \<^verbatim>\<open>0x\<close> prefix (which one underscore may follow), then
  digits, single underscores allowed between digits only; anything else raises
  \<^verbatim>\<open>ValueError\<close>. The white space it accepts is TAB, LF, VT, FF, CR, SPACE, NEL and
  NBSP (not U+001C .. U+001F). In base 10 more than \<open>int_max_str_digits\<close> digits raise
  \<^verbatim>\<open>ValueError\<close> (the default limit of CPython since 3.11).
\<close>

definition int_space :: "char \<Rightarrow> bool" where
  "int_space c = (let n = code_of c in
     (9 \<le> n \<and> n \<le> 13) \<or> n = 32 \<or> n = 133 \<or> n = 160)"

definition digit_value :: "char \<Rightarrow> nat option" where
  "digit_value c = (let n = code_of c in
     if 48 \<le> n \<and> n \<le> 57 then Some (n - 48)
     else if 97 \<le> n \<and> n \<le> 122 then Some (n - 87)
     else if 65 \<le> n \<and> n \<le> 90 then Some (n - 55)
     else None)"

text \<open>
  The digit scan: \<open>prev\<close> is the character read before. It returns the digit values
  and the unread rest, or \<open>None\<close> on a doubled or trailing underscore.
\<close>

fun scan_digits :: "nat \<Rightarrow> char \<Rightarrow> string \<Rightarrow> (nat list \<times> string) option" where
  "scan_digits base prev [] = (if prev = CHR ''_'' then None else Some ([], []))"
| "scan_digits base prev (c # cs) =
     (if c = CHR ''_'' then
        (if prev = CHR ''_'' then None else scan_digits base c cs)
      else
        (case digit_value c of
           Some v \<Rightarrow>
             if v < base then
               (case scan_digits base c cs of
                  None \<Rightarrow> None
                | Some (ds, rest) \<Rightarrow> Some (v # ds, rest))
             else (if prev = CHR ''_'' then None else Some ([], c # cs))
         | None \<Rightarrow> (if prev = CHR ''_'' then None else Some ([], c # cs))))"

definition int_max_str_digits :: nat where
  "int_max_str_digits = 4300"

definition skip_sign :: "string \<Rightarrow> int \<times> string" where
  "skip_sign s = (case s of
       [] \<Rightarrow> (1, [])
     | c # cs \<Rightarrow>
         if c = CHR ''+'' then (1, cs) else if c = CHR ''-'' then (- 1, cs) else (1, s))"

definition skip_prefix :: "nat \<Rightarrow> string \<Rightarrow> string" where
  "skip_prefix base s = (case s of
       z # x # rest \<Rightarrow>
         if base = 16 \<and> z = CHR ''0'' \<and> (x = CHR ''x'' \<or> x = CHR ''X'') then
           (case rest of [] \<Rightarrow> rest | u # rest' \<Rightarrow> if u = CHR ''_'' then rest' else rest)
         else s
     | _ \<Rightarrow> s)"

definition py_int :: "nat \<Rightarrow> string \<Rightarrow> py_error + int" where
  "py_int base s =
     (case skip_sign (dropWhile int_space s) of (sign, s2) \<Rightarrow>
        let s3 = skip_prefix base s2 in
        if s3 \<noteq> [] \<and> hd s3 = CHR ''_'' then Inl ValueError
        else
          (case scan_digits base (CHR 0x00) s3 of
             None \<Rightarrow> Inl ValueError
           | Some (ds, rest) \<Rightarrow>
               if ds = [] then Inl ValueError
               else if base = 10 \<and> int_max_str_digits < length ds then Inl ValueError
               else if dropWhile int_space rest \<noteq> [] then Inl ValueError
               else Inr (sign * int (foldl (\<lambda>a d. a * base + d) 0 ds))))"

section \<open>\<^verbatim>\<open>datetime(y, m, d)\<close> and \<^verbatim>\<open>strftime("%Y-%m-%d")\<close>\<close>

text \<open>
  The constructor of \<^verbatim>\<open>datetime\<close> raises \<^verbatim>\<open>OverflowError\<close> for an argument that
  does not fit a C \<^verbatim>\<open>int\<close>, and \<^verbatim>\<open>ValueError\<close> unless the year is in 1 .. 9999, the
  month in 1 .. 12 and the day in 1 .. the length of that month (proleptic Gregorian
  calendar).
\<close>

definition is_leap :: "int \<Rightarrow> bool" where
  "is_leap y = (y mod 4 = 0 \<and> (y mod 100 \<noteq> 0 \<or> y mod 400 = 0))"

definition days_in_month :: "int \<Rightarrow> int \<Rightarrow> int" where
  "days_in_month y m =
     (if m = 2 \<and> is_leap y then 29
      else [0, 31, 28, 31, 30, 31, 30, 31, 31, 30, 31, 30, 31] ! nat m)"

definition valid_ymd :: "int \<Rightarrow> int \<Rightarrow> int \<Rightarrow> bool" where
  "valid_ymd y m d =
     (1 \<le> y \<and> y \<le> 9999 \<and> 1 \<le> m \<and> m \<le> 12 \<and> 1 \<le> d \<and> d \<le> days_in_month y m)"

definition fits_c_int :: "int \<Rightarrow> bool" where
  "fits_c_int v = (- 2147483648 \<le> v \<and> v \<le> 2147483647)"

definition datetime :: "int \<Rightarrow> int \<Rightarrow> int \<Rightarrow> py_error + (int \<times> int \<times> int)" where
  "datetime y m d =
     (if \<not> (fits_c_int y \<and> fits_c_int m \<and> fits_c_int d) then Inl OverflowError
      else if y < 1 \<or> 9999 < y then Inl ValueError
      else if m < 1 \<or> 12 < m then Inl ValueError
      else if d < 1 \<or> days_in_month y m < d then Inl ValueError
      else Inr (y, m, d))"

text \<open>Decimal digits of a natural number, and zero filling to a width.\<close>

definition digit_char :: "nat \<Rightarrow> char" where
  "digit_char n = ''0123456789'' ! n"

fun dec_digits :: "nat \<Rightarrow> string" where
  "dec_digits n =
     (if n < 10 then [digit_char n] else dec_digits (n div 10) @ [digit_char (n mod 10)])"

declare dec_digits.simps [simp del]

definition zero_pad :: "nat \<Rightarrow> string \<Rightarrow> string" where
  "zero_pad w s = replicate (w - length s) (CHR ''0'') @ s"

text \<open>
  \<^verbatim>\<open>strftime("%Y-%m-%d")\<close> of a valid date. \<^verbatim>\<open>%m\<close> and \<^verbatim>\<open>%d\<close> are two digits, zero
  filled. \<^verbatim>\<open>%Y\<close> is delegated to the C library: CPython 3.11 on Linux (glibc) prints
  a year below 1000 without leading zeros (\<^verbatim>\<open>datetime(999,1,2)\<close> gives
  \<^verbatim>\<open>'999-01-02'\<close>), while other runtimes fill it to four digits. The flag \<open>pads\<close>
  says which kind of runtime the program runs on.
\<close>

definition strftime_ymd :: "bool \<Rightarrow> int \<times> int \<times> int \<Rightarrow> string" where
  "strftime_ymd pads dt =
     (case dt of (y, m, d) \<Rightarrow>
        (if pads then zero_pad 4 (dec_digits (nat y)) else dec_digits (nat y))
        @ ''-'' @ zero_pad 2 (dec_digits (nat m))
        @ ''-'' @ zero_pad 2 (dec_digits (nat d)))"

section \<open>Normalization: \<^verbatim>\<open>format_exif_raw\<close>\<close>

definition bind_res :: "py_error + 'a \<Rightarrow> ('a \<Rightarrow> py_error + 'b) \<Rightarrow> py_error + 'b" where
  "bind_res r f = (case r of Inl e \<Rightarrow> Inl e | Inr v \<Rightarrow> f v)"

text \<open>
  The body of the \<^verbatim>\<open>try\<close> block:
  \<^verbatim>\<open>y, m, d = parts[0:3]; return datetime(int(y), int(m), int(d)).strftime("%Y-%m-%d")\<close>.
\<close>

definition parse_ymd :: "bool \<Rightarrow> string list \<Rightarrow> py_error + string" where
  "parse_ymd pads parts =
     (case take 3 parts of
        [y, m, d] \<Rightarrow>
          bind_res (py_int 10 y) (\<lambda>yi.
          bind_res (py_int 10 m) (\<lambda>mi.
          bind_res (py_int 10 d) (\<lambda>di.
          bind_res (datetime yi mi di) (\<lambda>dt.
          Inr (strftime_ymd pads dt)))))
      | _ \<Rightarrow> Inl ValueError)"

text \<open>
  \<^verbatim>\<open>format_exif_raw(raw)\<close>. The first element of the split is taken with an explicit
  \<^verbatim>\<open>IndexError\<close> for an empty list, since that line is outside the \<^verbatim>\<open>try\<close>.
\<close>

definition format_exif_raw :: "bool \<Rightarrow> pyval \<Rightarrow> py_error + string option" where
  "format_exif_raw pads raw =
     (if \<not> py_truthy raw \<or> \<not> isinstance_str raw then Inr None
      else
        (case raw of
           PyStr s \<Rightarrow>
             (case py_split (CHR '' '') (py_strip s) of
                [] \<Rightarrow> Inl IndexError
              | date_part # _ \<Rightarrow>
                  let parts = py_split (CHR '':'') (py_replace (CHR ''-'') (CHR '':'') date_part)
                  in if 3 \<le> length parts then
                       (case parse_ymd pads parts of
                          Inr s \<Rightarrow> Inr (Some s)
                        | Inl _ \<Rightarrow> Inr None)
                     else Inr None)
         | _ \<Rightarrow> Inr None))"

text \<open>
  The words of the specification: a decimal digit, the number a digit string denotes,
  the date part of a raw string and its components.
\<close>

definition is_decimal :: "char \<Rightarrow> bool" where
  "is_decimal c = (c \<in> set ''0123456789'')"

definition decimal_value :: "string \<Rightarrow> nat" where
  "decimal_value s = foldl (\<lambda>a c. a * 10 + (code_of c - 48)) 0 s"

definition date_components :: "string \<Rightarrow> string list" where
  "date_components s =
     py_split (CHR '':'') (py_replace (CHR ''-'') (CHR '':'') (hd (py_split (CHR '' '') (py_strip s))))"

section \<open>The runtime and the file system\<close>

text \<open>
  What the program reads from outside is a record of functions, one per library call,
  each returning the call's value or the exception it raises:
  \<^item> \<open>strftime_pads_year\<close>: whether \<^verbatim>\<open>%Y\<close> is zero filled (see \<open>strftime_ymd\<close>);
  \<^item> \<open>HAVE_PIEXIF\<close>: whether \<^verbatim>\<open>import piexif\<close> succeeded;
  \<^item> \<open>piexif_load\<close>: \<^verbatim>\<open>piexif.load(path)\<close>, a dictionary from IFD names to
    dictionaries from tag numbers to values;
  \<^item> \<open>bytes_decode\<close>: \<^verbatim>\<open>bytes.decode()\<close> (UTF-8, strict) into the text model;
  \<^item> \<open>pillow_getexif\<close>: \<^verbatim>\<open>Image.open(path)\<close> followed by \<^verbatim>\<open>img._getexif()\<close>, which
    gives \<^verbatim>\<open>None\<close> or a dictionary from tag numbers to values;
  \<^item> \<open>getmtime\<close>: \<^verbatim>\<open>os.path.getmtime(path)\<close>, seconds since the epoch (the value of a
    finite double is a rational);
  \<^item> \<open>fromtimestamp\<close>: the year, month and day of \<^verbatim>\<open>datetime.fromtimestamp(t)\<close> in the
    local time zone, or the exception it raises.
\<close>

record world =
  strftime_pads_year :: bool
  HAVE_PIEXIF :: bool
  piexif_load :: "string \<Rightarrow> py_error + (string \<Rightarrow> (nat \<Rightarrow> pyval option) option)"
  bytes_decode :: "string \<Rightarrow> py_error + string"
  pillow_getexif :: "string \<Rightarrow> py_error + (nat \<times> pyval) list option"
  getmtime :: "string \<Rightarrow> py_error + rat"
  fromtimestamp :: "rat \<Rightarrow> py_error + (int \<times> int \<times> int)"

section \<open>Primary backend: \<^verbatim>\<open>get_date_from_piexif\<close>\<close>

text \<open>\<^verbatim>\<open>piexif.ExifIFD.DateTimeOriginal\<close> and \<^verbatim>\<open>piexif.ImageIFD.DateTime\<close>.\<close>

definition ExifIFD_DateTimeOriginal :: nat where
  "ExifIFD_DateTimeOriginal = 36867"

definition ImageIFD_DateTime :: nat where
  "ImageIFD_DateTime = 306"

text \<open>\<^verbatim>\<open>exif.get(name, {}).get(tag)\<close>: a missing IFD or a missing tag gives \<^verbatim>\<open>None\<close>.\<close>

definition ifd_get :: "(string \<Rightarrow> (nat \<Rightarrow> pyval option) option) \<Rightarrow> string \<Rightarrow> nat \<Rightarrow> pyval" where
  "ifd_get exif name tag =
     (case exif name of
        None \<Rightarrow> PyNone
      | Some ifd \<Rightarrow> (case ifd tag of None \<Rightarrow> PyNone | Some v \<Rightarrow> v))"

text \<open>
  \<^verbatim>\<open>v.decode() if isinstance(v, (bytes, bytearray)) else str(v)\<close>.
\<close>

definition decode_or_str :: "world \<Rightarrow> pyval \<Rightarrow> py_error + string" where
  "decode_or_str w v =
     (case v of
        PyBytes b \<Rightarrow> bytes_decode w b
      | PyStr s \<Rightarrow> Inr s
      | PyObject _ s \<Rightarrow> Inr s
      | PyNone \<Rightarrow> Inr ''None'')"

definition piexif_body :: "world \<Rightarrow> string \<Rightarrow> py_error + string option" where
  "piexif_body w path =
     bind_res (piexif_load w path) (\<lambda>exif.
       let date_bytes = ifd_get exif ''Exif'' ExifIFD_DateTimeOriginal in
       if py_truthy date_bytes then
         bind_res (decode_or_str w date_bytes) (\<lambda>raw.
           format_exif_raw (strftime_pads_year w) (PyStr raw))
       else
         let date0 = ifd_get exif ''0th'' ImageIFD_DateTime in
         if py_truthy date0 then
           bind_res (decode_or_str w date0) (\<lambda>raw.
             format_exif_raw (strftime_pads_year w) (PyStr raw))
         else Inr None)"

definition get_date_from_piexif :: "world \<Rightarrow> string \<Rightarrow> py_error + string option" where
  "get_date_from_piexif w path =
     (if \<not> HAVE_PIEXIF w then Inr None
      else (case piexif_body w path of
              Inl _ \<Rightarrow> Inr None
            | Inr r \<Rightarrow> Inr r))"

section \<open>Secondary backend: \<^verbatim>\<open>get_date_from_pillow\<close>\<close>

text \<open>
  \<^verbatim>\<open>ExifTags.TAGS\<close> maps tag numbers to names; only the three entries the source looks
  up are listed. \<^verbatim>\<open>tag_map = {v: k for k, v in ExifTags.TAGS.items()}\<close> inverts it, a
  later entry replacing an earlier one of the same name.
\<close>

definition ExifTags_TAGS :: "(nat \<times> string) list" where
  "ExifTags_TAGS =
     [(306, ''DateTime''), (36867, ''DateTimeOriginal''), (36868, ''DateTimeDigitized'')]"

definition tag_map :: "string \<Rightarrow> nat option" where
  "tag_map = map_of (rev (map (\<lambda>(k, v). (v, k)) ExifTags_TAGS))"

text \<open>
  The loop \<^verbatim>\<open>for tname in (...)\<close>: the first name whose tag is non-zero, present in
  the dictionary and holds a true value ends the loop with \<^verbatim>\<open>format_exif_raw\<close> of
  that value, whatever that returns.
\<close>

fun probe_tags :: "bool \<Rightarrow> (nat \<times> pyval) list \<Rightarrow> string list \<Rightarrow> py_error + string option" where
  "probe_tags pads exif [] = Inr None"
| "probe_tags pads exif (tname # tnames) =
     (case tag_map tname of
        None \<Rightarrow> probe_tags pads exif tnames
      | Some tag \<Rightarrow>
          if tag = 0 then probe_tags pads exif tnames
          else (case map_of exif tag of
                  None \<Rightarrow> probe_tags pads exif tnames
                | Some raw \<Rightarrow>
                    if py_truthy raw then format_exif_raw pads raw
                    else probe_tags pads exif tnames))"

definition pillow_body :: "world \<Rightarrow> string \<Rightarrow> py_error + string option" where
  "pillow_body w path =
     bind_res (pillow_getexif w path) (\<lambda>exif.
       case exif of
         None \<Rightarrow> Inr None
       | Some dict \<Rightarrow>
           if dict = [] then Inr None
           else probe_tags (strftime_pads_year w) dict
                  [''DateTimeOriginal'', ''DateTime'', ''DateTimeDigitized''])"

definition get_date_from_pillow :: "world \<Rightarrow> string \<Rightarrow> py_error + string option" where
  "get_date_from_pillow w path =
     (case pillow_body w path of
        Inl _ \<Rightarrow> Inr None
      | Inr r \<Rightarrow> Inr r)"

section \<open>The chain: \<^verbatim>\<open>get_date_string\<close>\<close>

text \<open>The test \<^verbatim>\<open>if d:\<close> on a value that is \<^verbatim>\<open>None\<close> or a \<^verbatim>\<open>str\<close>.\<close>

definition date_truthy :: "string option \<Rightarrow> bool" where
  "date_truthy d = (case d of None \<Rightarrow> False | Some s \<Rightarrow> s \<noteq> [])"

definition mtime_body :: "world \<Rightarrow> string \<Rightarrow> py_error + string option" where
  "mtime_body w path =
     bind_res (getmtime w path) (\<lambda>mtime.
     bind_res (fromtimestamp w mtime) (\<lambda>dt.
     Inr (Some (strftime_ymd (strftime_pads_year w) dt))))"

definition mtime_tier :: "world \<Rightarrow> string \<Rightarrow> py_error + string option" where
  "mtime_tier w path =
     (case mtime_body w path of
        Inl _ \<Rightarrow> Inr None
      | Inr r \<Rightarrow> Inr r)"

definition get_date_string :: "world \<Rightarrow> string \<Rightarrow> py_error + string option" where
  "get_date_string w path =
     bind_res (if HAVE_PIEXIF w then get_date_from_piexif w path else Inr None) (\<lambda>d.
       if date_truthy d then Inr d
       else
         bind_res (get_date_from_pillow w path) (\<lambda>d.
           if date_truthy d then Inr d
           else mtime_tier w path))"

text \<open>
  The words of the specification. The value a dictionary holds at a tag if it is present
  and true; the value the secondary tier uses, probing the EXIF tags DateTimeOriginal
  (0x9003), DateTime (0x0132), DateTimeDigitized (0x9004) in that order; the canonical
  form of a date.
\<close>

definition present_value :: "(nat \<times> pyval) list \<Rightarrow> nat \<Rightarrow> pyval option" where
  "present_value dict tag =
     (case map_of dict tag of
        None \<Rightarrow> None
      | Some v \<Rightarrow> if py_truthy v then Some v else None)"

definition probed_value :: "(nat \<times> pyval) list \<Rightarrow> pyval option" where
  "probed_value dict =
     (case present_value dict 0x9003 of
        Some v \<Rightarrow> Some v
      | None \<Rightarrow>
          (case present_value dict 0x0132 of
             Some v \<Rightarrow> Some v
           | None \<Rightarrow> present_value dict 0x9004))"

definition canonical_date :: "int \<times> int \<times> int \<Rightarrow> string" where
  "canonical_date dt =
     (case dt of (y, m, d) \<Rightarrow>
        zero_pad 4 (dec_digits (nat y)) @ ''-'' @ zero_pad 2 (dec_digits (nat m))
        @ ''-'' @ zero_pad 2 (dec_digits (nat d)))"

section \<open>A runtime with the time zone UTC\<close>

text \<open>
  \<^verbatim>\<open>datetime.fromtimestamp(t)\<close> without a time zone, where local time is UTC, on
  Linux with a 64-bit \<^verbatim>\<open>time_t\<close>. The time stamp is rounded to microseconds (half to
  even); seconds outside \<^verbatim>\<open>time_t\<close> raise \<^verbatim>\<open>OverflowError\<close>; \<^verbatim>\<open>localtime\<close> fails
  with \<^verbatim>\<open>OSError\<close> when the year minus 1900 does not fit a C \<^verbatim>\<open>int\<close>; the day number
  since 1970-01-01 is converted to the proleptic Gregorian calendar, and a year outside
  1 .. 9999 raises \<^verbatim>\<open>ValueError\<close>. To detect a repeated local hour CPython also converts
  the time 24 hours earlier, and raises \<^verbatim>\<open>ValueError\<close> when that falls before year 1,
  so the first day of year 1 is refused as well.
\<close>

definition round_half_even :: "rat \<Rightarrow> int" where
  "round_half_even x =
     (let f = \<lfloor>x\<rfloor>; r = x - of_int f in
      if r < 1 / 2 then f
      else if 1 / 2 < r then f + 1
      else if even f then f else f + 1)"

definition civil_from_days :: "int \<Rightarrow> int \<times> int \<times> int" where
  "civil_from_days days =
     (let z = days + 719468;
          era = z div 146097;
          doe = z mod 146097;
          yoe = (doe - doe div 1460 + doe div 36524 - doe div 146096) div 365;
          doy = doe - (365 * yoe + yoe div 4 - yoe div 100);
          mp = (5 * doy + 2) div 153;
          d = doy - (153 * mp + 2) div 5 + 1;
          m = (if mp < 10 then mp + 3 else mp - 9);
          y = yoe + era * 400 + (if m \<le> 2 then 1 else 0)
      in (y, m, d))"

definition utc_fromtimestamp :: "rat \<Rightarrow> py_error + (int \<times> int \<times> int)" where
  "utc_fromtimestamp t =
     (let us = round_half_even (t * 1000000);
          secs = us div 1000000;
          dt = civil_from_days (secs div 86400);
          probe = civil_from_days ((secs - 86400) div 86400)
      in if secs < - (2 ^ 63) \<or> 2 ^ 63 \<le> secs then Inl OverflowError
         else case dt of (y, m, d) \<Rightarrow>
           if y - 1900 < - (2 ^ 31) \<or> 2 ^ 31 \<le> y - 1900 then Inl OSError
           else if y < 1 \<or> 9999 < y then Inl ValueError
           else if fst probe < 1 then Inl ValueError
           else Inr dt)"

text \<open>
  \<^verbatim>\<open>bytes.decode()\<close>, strict UTF-8, into the text model, whose characters are
  U+0000 .. U+00FF: a byte below 0x80 is its own character, the lead bytes 0xC2 and 0xC3
  with a continuation byte 0x80 .. 0xBF give U+0080 .. U+00FF, and every other byte
  raises \<^verbatim>\<open>UnicodeDecodeError\<close>. Valid longer sequences, which decode to characters outside
  the text model, are refused here as well.
\<close>

fun utf8_decode :: "string \<Rightarrow> py_error + string" where
  "utf8_decode [] = Inr []"
| "utf8_decode [c] = (if code_of c < 128 then Inr [c] else Inl UnicodeDecodeError)"
| "utf8_decode (c # c2 # cs) =
     (if code_of c < 128 then bind_res (utf8_decode (c2 # cs)) (\<lambda>r. Inr (c # r))
      else if (code_of c = 0xC2 \<or> code_of c = 0xC3) \<and> 0x80 \<le> code_of c2 \<and> code_of c2 < 0xC0
      then bind_res (utf8_decode cs)
             (\<lambda>r. Inr (char_of ((code_of c - 0xC2) * 64 + code_of c2) # r))
      else Inl UnicodeDecodeError)"

section \<open>Example runtimes\<close>

text \<open>
  A runtime on Linux with CPython 3.11 and the time zone UTC: the two IFDs \<^verbatim>\<open>piexif\<close>
  reads, the dictionary Pillow reads, and the result of \<^verbatim>\<open>os.path.getmtime\<close>, the same
  for every path.
\<close>

definition piexif_dict ::
  "(nat \<times> pyval) list \<Rightarrow> (nat \<times> pyval) list \<Rightarrow> string \<Rightarrow> (nat \<Rightarrow> pyval option) option" where
  "piexif_dict exif_ifd zeroth_ifd = map_of [(''Exif'', map_of exif_ifd), (''0th'', map_of zeroth_ifd)]"

definition example_world ::
  "bool \<Rightarrow> (nat \<times> pyval) list \<Rightarrow> (nat \<times> pyval) list \<Rightarrow> (nat \<times> pyval) list option
     \<Rightarrow> py_error + rat \<Rightarrow> world" where
  "example_world have exif_ifd zeroth_ifd pillow mtime =
     \<lparr> strftime_pads_year = False,
       HAVE_PIEXIF = have,
       piexif_load = (\<lambda>_. Inr (piexif_dict exif_ifd zeroth_ifd)),
       bytes_decode = utf8_decode,
       pillow_getexif = (\<lambda>_. Inr pillow),
       getmtime = (\<lambda>_. mtime),
       fromtimestamp = utc_fromtimestamp \<rparr>"

text \<open>
  A photo whose three sources disagree: DateTimeOriginal 2022-07-04 and DateTime
  2021-01-01 for \<^verbatim>\<open>piexif\<close>, DateTime 2020-05-05 for Pillow, modified 2023-11-14.
\<close>

definition camera_world :: world where
  "camera_world =
     example_world True
       [(36867, PyBytes ''2022:07:04 10:00:00'')]
       [(306, PyBytes ''2021:01:01 00:00:00'')]
       (Some [(306, PyStr ''2020:05:05 09:00:00''), (36868, PyStr ''2019:03:03 08:00:00'')])
       (Inr 1700000000)"

text \<open>The same photo without a DateTimeOriginal field.\<close>

definition edited_world :: world where
  "edited_world =
     example_world True
       []
       [(306, PyBytes ''2021:01:01 00:00:00'')]
       (Some [(306, PyStr ''2020:05:05 09:00:00''), (36868, PyStr ''2019:03:03 08:00:00'')])
       (Inr 1700000000)"

text \<open>A file without metadata, modified 2023-11-14 22:13:20 UTC.\<close>

definition plain_world :: world where
  "plain_world = example_world True [] [] None (Inr 1700000000)"

text \<open>A file without metadata that cannot be read.\<close>

definition missing_world :: world where
  "missing_world = example_world True [] [] None (Inl OSError)"

text \<open>
  A file without metadata whose modification time is 10000-01-01 00:00:00 UTC (a file
  system with 64-bit time stamps stores it).
\<close>

definition far_future_world :: world where
  "far_future_world = example_world True [] [] None (Inr 253402300800)"

text \<open>A file whose DateTimeOriginal, as Pillow returns it, is a byte string.\<close>

definition bytes_world :: world where
  "bytes_world =
     example_world False [] []
       (Some [(36867, PyBytes ''2022:07:04 10:00:00''), (306, PyStr ''2020:05:05 09:00:00'')])
       (Inr 1700000000)"

section \<open>Colour parsing: \<^verbatim>\<open>parse_color\<close>\<close>

text \<open>
  The argument is \<^verbatim>\<open>None\<close> or a \<^verbatim>\<open>str\<close>; \<^verbatim>\<open>(s or "")\<close> turns \<^verbatim>\<open>None\<close> into the empty
  string. \<^verbatim>\<open>s[i:j]\<close> is \<open>py_slice\<close>. The three \<^verbatim>\<open>int(..., 16)\<close> of the generator are
  evaluated in the order 1, 3, 5, outside any \<^verbatim>\<open>try\<close>.
\<close>

definition py_slice :: "string \<Rightarrow> nat \<Rightarrow> nat \<Rightarrow> string" where
  "py_slice s i j = take (j - i) (drop i s)"

definition startswith :: "string \<Rightarrow> string \<Rightarrow> bool" where
  "startswith s prefix = (take (length prefix) s = prefix)"

definition color_names :: "(string \<times> (int \<times> int \<times> int)) list" where
  "color_names =
     [(''white'', (255, 255, 255)),
      (''black'', (0, 0, 0)),
      (''red'', (255, 0, 0)),
      (''yellow'', (255, 255, 0)),
      (''blue'', (0, 0, 255)),
      (''green'', (0, 128, 0))]"

definition parse_color :: "string option \<Rightarrow> py_error + (int \<times> int \<times> int)" where
  "parse_color s0 =
     (let s = py_strip (case s0 of None \<Rightarrow> [] | Some t \<Rightarrow> t) in
      if startswith s ''#'' \<and> length s = 7 then
        bind_res (py_int 16 (py_slice s 1 3)) (\<lambda>r.
        bind_res (py_int 16 (py_slice s 3 5)) (\<lambda>g.
        bind_res (py_int 16 (py_slice s 5 7)) (\<lambda>b.
        Inr (r, g, b))))
      else
        Inr (case map_of color_names (py_lower s) of
               None \<Rightarrow> (255, 255, 255)
             | Some c \<Rightarrow> c))"

text \<open>The words of the specification: a hexadecimal digit and its value.\<close>

definition is_hex :: "char \<Rightarrow> bool" where
  "is_hex c = (c \<in> set ''0123456789abcdefABCDEF'')"

definition hex_value :: "char \<Rightarrow> int" where
  "hex_value c =
     (case map_of (zip ''0123456789abcdefABCDEF''
                       [0, 1, 2, 3, 4, 5, 6, 7, 8, 9, 10, 11, 12, 13, 14, 15, 10, 11, 12, 13, 14, 15]) c of
        None \<Rightarrow> 0
      | Some v \<Rightarrow> v)"

section \<open>Floating point: \<^verbatim>\<open>float(s)\<close>, \<^verbatim>\<open>int(x)\<close>, multiplication\<close>

text \<open>
  A Python \<^verbatim>\<open>float\<close> is an IEEE 754 binary64 number: a finite one is the rational it
  denotes (the sign of zero is not kept, no operation of the source depends on it), the
  others are the two infinities and NaN.
\<close>

datatype pyfloat = Finite rat | PosInf | NegInf | NaN

definition pow2 :: "int \<Rightarrow> rat" where
  "pow2 k = (if 0 \<le> k then 2 ^ nat k else 1 / 2 ^ nat (- k))"

definition pow10 :: "int \<Rightarrow> rat" where
  "pow10 k = (if 0 \<le> k then 10 ^ nat k else 1 / 10 ^ nat (- k))"

fun ilog2 :: "nat \<Rightarrow> nat" where
  "ilog2 n = (if n < 2 then 0 else Suc (ilog2 (n div 2)))"

declare ilog2.simps [simp del]

text \<open>The exponent \<open>e\<close> of a positive rational: \<open>2 ^ e \<le> a < 2 ^ (e + 1)\<close>.\<close>

definition binary_exponent :: "rat \<Rightarrow> int" where
  "binary_exponent a =
     (case quotient_of a of (n, d) \<Rightarrow>
        let e0 = int (ilog2 (nat n)) - int (ilog2 (nat d))
        in if pow2 e0 \<le> a then e0 else e0 - 1)"

text \<open>
  Rounding to the nearest binary64 number, ties to even: 53 significant bits, the
  smallest quantum \<open>2 ^ - 1074\<close>, and infinity from \<open>2 ^ 1024\<close> on.
\<close>

definition round_to_double :: "rat \<Rightarrow> pyfloat" where
  "round_to_double x =
     (if x = 0 then Finite 0
      else
        let a = \<bar>x\<bar>;
            q = max (binary_exponent a - 52) (- 1074);
            v = of_int (round_half_even (a / pow2 q)) * pow2 q
        in if pow2 1024 \<le> v then (if 0 < x then PosInf else NegInf)
           else Finite (if 0 < x then v else - v))"

text \<open>
  \<^verbatim>\<open>float(s)\<close> on a \<^verbatim>\<open>str\<close>. An underscore must stand between two digits. White space
  (the same characters as for \<^verbatim>\<open>int\<close>) is removed at both ends. What is left is a
  sign and \<^verbatim>\<open>inf\<close>, \<^verbatim>\<open>infinity\<close> or \<^verbatim>\<open>nan\<close> in any case, or a sign and a decimal
  number: digits with at most one point and at least one digit, then optionally
  \<^verbatim>\<open>e\<close> or \<^verbatim>\<open>E\<close>, a sign and at least one digit. The decimal value is rounded to
  binary64; too large a value gives infinity. Anything else raises \<^verbatim>\<open>ValueError\<close>.
\<close>

definition is_ascii_digit :: "char \<Rightarrow> bool" where
  "is_ascii_digit c = (48 \<le> code_of c \<and> code_of c \<le> 57)"

fun underscores_ok :: "char \<Rightarrow> string \<Rightarrow> bool" where
  "underscores_ok prev [] = (prev \<noteq> CHR ''_'')"
| "underscores_ok prev (c # cs) =
     (if c = CHR ''_'' then is_ascii_digit prev \<and> underscores_ok c cs
      else if prev = CHR ''_'' then is_ascii_digit c \<and> underscores_ok c cs
      else underscores_ok c cs)"

definition digits_nat :: "string \<Rightarrow> nat" where
  "digits_nat ds = foldl (\<lambda>a c. a * 10 + (code_of c - 48)) 0 ds"

definition parse_exponent :: "string \<Rightarrow> int option" where
  "parse_exponent s =
     (case s of
        [] \<Rightarrow> Some 0
      | c # cs \<Rightarrow>
          if c = CHR ''e'' \<or> c = CHR ''E'' then
            (case skip_sign cs of (sign, r) \<Rightarrow>
               if r \<noteq> [] \<and> list_all is_ascii_digit r then Some (sign * int (digits_nat r))
               else None)
          else None)"

definition parse_decimal :: "string \<Rightarrow> rat option" where
  "parse_decimal s =
     (let ip = takeWhile is_ascii_digit s;
          r1 = dropWhile is_ascii_digit s;
          point = (r1 \<noteq> [] \<and> hd r1 = CHR ''.'');
          fp = (if point then takeWhile is_ascii_digit (tl r1) else []);
          r2 = (if point then dropWhile is_ascii_digit (tl r1) else r1)
      in if ip @ fp = [] then None
         else (case parse_exponent r2 of
                 None \<Rightarrow> None
               | Some e \<Rightarrow> Some (of_nat (digits_nat (ip @ fp)) * pow10 (e - int (length fp)))))"

definition py_float :: "string \<Rightarrow> py_error + pyfloat" where
  "py_float s =
     (if \<not> underscores_ok (CHR 0x00) s then Inl ValueError
      else
        let t = rev (dropWhile int_space (rev (dropWhile int_space s)));
            u = filter (\<lambda>c. c \<noteq> CHR ''_'') t
        in case skip_sign u of (sign, body) \<Rightarrow>
             if py_lower body = ''inf'' \<or> py_lower body = ''infinity'' then
               Inr (if sign < 0 then NegInf else PosInf)
             else if py_lower body = ''nan'' then Inr NaN
             else (case parse_decimal body of
                     None \<Rightarrow> Inl ValueError
                   | Some q \<Rightarrow> Inr (round_to_double (of_int sign * q))))"

text \<open>Comparison of a float with a finite number; every comparison with NaN is false.\<close>

definition float_ge :: "pyfloat \<Rightarrow> rat \<Rightarrow> bool" where
  "float_ge x c = (case x of Finite v \<Rightarrow> c \<le> v | PosInf \<Rightarrow> True | _ \<Rightarrow> False)"

definition float_gt :: "pyfloat \<Rightarrow> rat \<Rightarrow> bool" where
  "float_gt x c = (case x of Finite v \<Rightarrow> c < v | PosInf \<Rightarrow> True | _ \<Rightarrow> False)"

definition float_lt :: "pyfloat \<Rightarrow> rat \<Rightarrow> bool" where
  "float_lt x c = (case x of Finite v \<Rightarrow> v < c | NegInf \<Rightarrow> True | _ \<Rightarrow> False)"

text \<open>
  \<^verbatim>\<open>int(x)\<close> truncates toward zero; it raises \<^verbatim>\<open>OverflowError\<close> for an infinity and
  \<^verbatim>\<open>ValueError\<close> for NaN.
\<close>

definition py_trunc :: "rat \<Rightarrow> int" where
  "py_trunc v = (if 0 \<le> v then \<lfloor>v\<rfloor> else \<lceil>v\<rceil>)"

definition int_of_float :: "pyfloat \<Rightarrow> py_error + int" where
  "int_of_float x =
     (case x of
        Finite v \<Rightarrow> Inr (py_trunc v)
      | NaN \<Rightarrow> Inl ValueError
      | _ \<Rightarrow> Inl OverflowError)"

text \<open>
  \<^verbatim>\<open>img_w * val\<close> with an \<^verbatim>\<open>int\<close> on the left: the integer is converted to a float,
  \<^verbatim>\<open>OverflowError\<close> if it is too large, and the product is rounded.
\<close>

definition float_of_int :: "int \<Rightarrow> py_error + pyfloat" where
  "float_of_int n =
     (case round_to_double (of_int n) of
        Finite v \<Rightarrow> Inr (Finite v)
      | _ \<Rightarrow> Inl OverflowError)"

definition float_sign :: "pyfloat \<Rightarrow> int" where
  "float_sign x =
     (case x of
        Finite v \<Rightarrow> (if 0 < v then 1 else if v < 0 then - 1 else 0)
      | PosInf \<Rightarrow> 1
      | NegInf \<Rightarrow> - 1
      | NaN \<Rightarrow> 0)"

definition float_mul :: "pyfloat \<Rightarrow> pyfloat \<Rightarrow> pyfloat" where
  "float_mul x y =
     (case (x, y) of
        (Finite a, Finite b) \<Rightarrow> round_to_double (a * b)
      | (NaN, _) \<Rightarrow> NaN
      | (_, NaN) \<Rightarrow> NaN
      | _ \<Rightarrow>
          if float_sign x * float_sign y = 0 then NaN
          else if 0 < float_sign x * float_sign y then PosInf else NegInf)"

section \<open>Font size: \<^verbatim>\<open>compute_font_px\<close>\<close>

text \<open>
  The body of the \<^verbatim>\<open>try\<close> block gives \<open>Some\<close> of the value of the \<^verbatim>\<open>return\<close> it
  reaches, or \<open>None\<close> when it reaches none.
\<close>

definition font_px_body :: "string \<Rightarrow> int \<Rightarrow> py_error + int option" where
  "font_px_body spec img_w =
     bind_res (py_float spec) (\<lambda>val.
       if float_ge val 1 then
         bind_res (int_of_float val) (\<lambda>n. Inr (Some n))
       else if float_gt val 0 \<and> float_lt val 1 then
         bind_res (float_of_int img_w) (\<lambda>w.
         bind_res (int_of_float (float_mul w val)) (\<lambda>n.
         Inr (Some (max 12 n))))
       else Inr None)"

definition compute_font_px :: "string \<Rightarrow> int \<Rightarrow> py_error + int" where
  "compute_font_px spec img_w =
     (case font_px_body spec img_w of
        Inr (Some n) \<Rightarrow> Inr n
      | Inr None \<Rightarrow> Inr 36
      | Inl _ \<Rightarrow> Inr 36)"

section \<open>Rendering: \<^verbatim>\<open>process_image\<close>\<close>

text \<open>
  The imaging library, the file system and the console, as far as \<^verbatim>\<open>process_image\<close> and
  the Pillow tier of the date chain call them: \<^verbatim>\<open>Image.open\<close>, \<^verbatim>\<open>img._getexif()\<close>, the
  \<^verbatim>\<open>__exit__\<close> of the opened image (which closes its file when a \<^verbatim>\<open>with\<close> block is left),
  \<^verbatim>\<open>im.convert(mode)\<close>, \<^verbatim>\<open>os.path.isfile\<close>, \<^verbatim>\<open>ImageFont.truetype\<close>,
  \<^verbatim>\<open>ImageFont.load_default\<close>, \<^verbatim>\<open>ImageDraw.Draw\<close>, \<^verbatim>\<open>os.makedirs(d, exist_ok=True)\<close>,
  \<^verbatim>\<open>im.save(path)\<close> or \<^verbatim>\<open>im.save(path, quality=q)\<close>, \<^verbatim>\<open>print\<close> of one of the three
  messages, and the total path functions \<^verbatim>\<open>os.path.basename\<close>, \<^verbatim>\<open>os.path.splitext\<close>,
  \<^verbatim>\<open>os.path.join\<close>. Each call that can raise returns its value or its exception. An image
  is known by its size and mode.
\<close>

record image_obj =
  im_size :: "int \<times> int"
  im_mode :: string

text \<open>
  The three messages: the skip message with the path, the saved message with the output
  path, the error message with the path and the exception. They are written in Chinese,
  so printing them raises \<^verbatim>\<open>UnicodeEncodeError\<close> on a console whose encoding lacks
  these characters.
\<close>

datatype message =
    Msg_skip string
  | Msg_saved string
  | Msg_error string py_error

record imaging =
  image_open :: "string \<Rightarrow> py_error + image_obj"
  getexif :: "image_obj \<Rightarrow> py_error + (nat \<times> pyval) list option"
  image_exit :: "image_obj \<Rightarrow> py_error + unit"
  convert :: "image_obj \<Rightarrow> string \<Rightarrow> py_error + image_obj"
  isfile :: "string \<Rightarrow> bool"
  truetype :: "string \<Rightarrow> int \<Rightarrow> py_error + font_obj"
  load_default :: "py_error + font_obj"
  Draw :: "image_obj \<Rightarrow> py_error + draw_obj"
  makedirs :: "string \<Rightarrow> py_error + unit"
  save :: "image_obj \<Rightarrow> string \<Rightarrow> int option \<Rightarrow> py_error + unit"
  print_msg :: "message \<Rightarrow> py_error + unit"
  basename :: "string \<Rightarrow> string"
  splitext :: "string \<Rightarrow> string \<times> string"
  join :: "string \<Rightarrow> string \<Rightarrow> string"

text \<open>
  What the function does to the outside is a log of events, in the order they happen:
  an image opened by \<^verbatim>\<open>Image.open\<close> and closed at the end of its \<^verbatim>\<open>with\<close> block, each
  text drawn (position, text, fill), the directory created, the file saved (path and
  quality), each message printed. An event is recorded when its call returns; a call
  that raises leaves no event. \<^verbatim>\<open>piexif.load\<close> reads the file by itself, not through
  \<^verbatim>\<open>Image.open\<close>, and leaves no event.
\<close>

datatype event =
    Open_image string
  | Close_image string
  | Draw_text "int \<times> int" string "int \<times> int \<times> int"
  | Make_dirs string
  | Save_image string "int option"
  | Print message

type_synonym 'a io = "event list \<Rightarrow> (py_error + 'a) \<times> event list"

definition io_return :: "'a \<Rightarrow> 'a io" where
  "io_return x = (\<lambda>evs. (Inr x, evs))"

definition io_bind :: "'a io \<Rightarrow> ('a \<Rightarrow> 'b io) \<Rightarrow> 'b io" where
  "io_bind m f = (\<lambda>evs. case m evs of
       (Inl e, evs') \<Rightarrow> (Inl e, evs')
     | (Inr x, evs') \<Rightarrow> f x evs')"

text \<open>A call without an event, and a call that adds an event when it returns.\<close>

definition io_call :: "py_error + 'a \<Rightarrow> 'a io" where
  "io_call r = (\<lambda>evs. (r, evs))"

definition io_effect :: "event \<Rightarrow> py_error + 'a \<Rightarrow> 'a io" where
  "io_effect ev r = (\<lambda>evs. case r of Inl e \<Rightarrow> (Inl e, evs) | Inr x \<Rightarrow> (Inr x, evs @ [ev]))"

text \<open>
  Leaving a \<^verbatim>\<open>with\<close> block: \<^verbatim>\<open>__exit__\<close> is called whether the body returned or raised.
  If it raises, its exception replaces the outcome of the body; if it returns (the
  image's \<^verbatim>\<open>__exit__\<close> returns \<^verbatim>\<open>None\<close>), the outcome of the body stands.
\<close>

definition io_with_exit :: "event \<Rightarrow> py_error + unit \<Rightarrow> 'a io \<Rightarrow> 'a io" where
  "io_with_exit ev ex body = (\<lambda>evs. case body evs of
       (res, evs') \<Rightarrow> (case ex of Inl e \<Rightarrow> (Inl e, evs') | Inr _ \<Rightarrow> (res, evs' @ [ev])))"

text \<open>
  The read of the Pillow tier, \<^verbatim>\<open>with Image.open(path) as img: exif = img._getexif()\<close>,
  as calls of this library. \<^verbatim>\<open>Image.open\<close> is the same call whether the date chain or
  the rendering makes it, so for \<^verbatim>\<open>process_image\<close> the runtime's \<open>pillow_getexif\<close> is this
  read; \<open>date_events\<close> is what the date chain does to the outside: nothing when the
  primary tier gives a date, else the events of this read.
\<close>

definition pillow_read :: "imaging \<Rightarrow> string \<Rightarrow> ((nat \<times> pyval) list option) io" where
  "pillow_read env path =
     io_bind (io_effect (Open_image path) (image_open env path)) (\<lambda>img.
       io_with_exit (Close_image path) (image_exit env img) (io_call (getexif env img)))"

definition runtime_of :: "world \<Rightarrow> imaging \<Rightarrow> world" where
  "runtime_of w env = w \<lparr> pillow_getexif := (\<lambda>path. fst (pillow_read env path [])) \<rparr>"

definition date_events :: "world \<Rightarrow> imaging \<Rightarrow> string \<Rightarrow> event list" where
  "date_events w env path =
     (case (if HAVE_PIEXIF w then get_date_from_piexif w path else Inr None) of
        Inl _ \<Rightarrow> []
      | Inr d \<Rightarrow> if date_truthy d then [] else snd (pillow_read env path []))"

text \<open>
  The inner \<^verbatim>\<open>try\<close>: the custom font if a path is given and is a file, else the default
  font; if that raises, the default font, whose own exception is not caught here.
\<close>

definition load_font :: "imaging \<Rightarrow> string \<Rightarrow> int \<Rightarrow> py_error + font_obj" where
  "load_font env font_path font_px =
     (case (if font_path \<noteq> [] \<and> isfile env font_path
            then truetype env font_path font_px
            else load_default env) of
        Inr font \<Rightarrow> Inr font
      | Inl _ \<Rightarrow> load_default env)"

text \<open>The loop over the four offsets of the outline.\<close>

fun draw_outline :: "draw_obj \<Rightarrow> int \<times> int \<Rightarrow> string \<Rightarrow> font_obj \<Rightarrow> (int \<times> int) list \<Rightarrow> unit io" where
  "draw_outline draw xy text font [] = io_return ()"
| "draw_outline draw xy text font (off # offs) =
     (case xy of (x, y) \<Rightarrow> case off of (dx, dy) \<Rightarrow>
        io_bind (io_effect (Draw_text (x + dx, y + dy) text (0, 0, 0))
                   (draw_text draw (x + dx, y + dy) text font (0, 0, 0)))
          (\<lambda>_. draw_outline draw xy text font offs))"

definition save_image :: "imaging \<Rightarrow> image_obj \<Rightarrow> string \<Rightarrow> string \<Rightarrow> unit io" where
  "save_image env im ext out_path =
     (if py_lower ext \<in> set [''.jpg'', ''.jpeg''] then
        io_bind (io_call (convert env im ''RGB'')) (\<lambda>rgb.
          io_effect (Save_image out_path (Some 95)) (save env rgb out_path (Some 95)))
      else io_effect (Save_image out_path None) (save env im out_path None))"

text \<open>
  The body of the \<^verbatim>\<open>with\<close> block, from \<^verbatim>\<open>im.convert("RGBA")\<close> to \<^verbatim>\<open>return True\<close>.
\<close>

definition with_body ::
  "imaging \<Rightarrow> image_obj \<Rightarrow> string \<Rightarrow> string \<Rightarrow> string \<Rightarrow> string \<Rightarrow> string \<Rightarrow> string \<Rightarrow> string
     \<Rightarrow> bool io" where
  "with_body env im0 date_text path out_dir font_path font_spec color_str pos_name =
     io_bind (io_call (convert env im0 ''RGBA'')) (\<lambda>im.
     case im_size im of (w, h) \<Rightarrow>
     io_bind (io_call (compute_font_px font_spec w)) (\<lambda>font_px.
     io_bind (io_call (load_font env font_path font_px)) (\<lambda>font.
     io_bind (io_call (Draw env im)) (\<lambda>draw.
     io_bind (io_call (measure_text draw date_text font)) (\<lambda>text_size.
     case calc_pos pos_name (w, h) text_size default_margin of (x, y) \<Rightarrow>
     io_bind (draw_outline draw (x, y) date_text font [(- 1, - 1), (- 1, 1), (1, - 1), (1, 1)]) (\<lambda>_.
     io_bind (io_call (parse_color (Some color_str))) (\<lambda>fill.
     io_bind (io_effect (Draw_text (x, y) date_text fill)
                (draw_text draw (x, y) date_text font fill)) (\<lambda>_.
     case splitext env (basename env path) of (name, ext) \<Rightarrow>
     io_bind (io_effect (Make_dirs out_dir) (makedirs env out_dir)) (\<lambda>_.
     io_bind (save_image env im ext (join env out_dir (name @ ''_wm'' @ ext))) (\<lambda>_.
     io_bind (io_effect (Print (Msg_saved (join env out_dir (name @ ''_wm'' @ ext))))
                (print_msg env (Msg_saved (join env out_dir (name @ ''_wm'' @ ext))))) (\<lambda>_.
     io_return True)))))))))))"

text \<open>
  The body of the outer \<^verbatim>\<open>try\<close>: \<^verbatim>\<open>with Image.open(path) as im:\<close> around the block above.
  The image that \<^verbatim>\<open>Image.open\<close> returned is the one whose \<^verbatim>\<open>__exit__\<close> is called.
\<close>

definition render_body ::
  "imaging \<Rightarrow> string \<Rightarrow> string \<Rightarrow> string \<Rightarrow> string \<Rightarrow> string \<Rightarrow> string \<Rightarrow> string \<Rightarrow> bool io" where
  "render_body env date_text path out_dir font_path font_spec color_str pos_name =
     io_bind (io_effect (Open_image path) (image_open env path)) (\<lambda>im0.
       io_with_exit (Close_image path) (image_exit env im0)
         (with_body env im0 date_text path out_dir font_path font_spec color_str pos_name))"

text \<open>
  \<^verbatim>\<open>process_image\<close>: its result, or the exception that reaches its caller, and the log.
  The skip message is printed outside every \<^verbatim>\<open>try\<close>, and the error message inside the
  \<^verbatim>\<open>except\<close> handler, so an exception of either \<^verbatim>\<open>print\<close> reaches the caller; the saved
  message is printed inside the \<^verbatim>\<open>try\<close> block.
\<close>

definition process_image ::
  "world \<Rightarrow> imaging \<Rightarrow> string \<Rightarrow> string \<Rightarrow> string \<Rightarrow> string \<Rightarrow> string \<Rightarrow> string
     \<Rightarrow> (py_error + bool) \<times> event list" where
  "process_image w env path out_dir font_path font_spec color_str pos_name =
     (case get_date_string (runtime_of w env) path of
        Inl e \<Rightarrow> (Inl e, date_events w env path)
      | Inr date \<Rightarrow>
          if \<not> date_truthy date then
            io_bind (io_effect (Print (Msg_skip path)) (print_msg env (Msg_skip path)))
              (\<lambda>_. io_return False) (date_events w env path)
          else
            (case render_body env (the date) path out_dir font_path font_spec color_str
                    pos_name (date_events w env path) of
               (Inr r, evs) \<Rightarrow> (Inr r, evs)
             | (Inl e, evs) \<Rightarrow>
                 io_bind (io_effect (Print (Msg_error path e)) (print_msg env (Msg_error path e)))
                   (\<lambda>_. io_return False) evs))"

text \<open>
  An imaging library in which every call works, on a POSIX file system: every file is a
  600 x 400 image without EXIF data, the drawing context measures with \<^verbatim>\<open>textbbox\<close>,
  every message is printed.
\<close>

definition posix_splitext :: "string \<Rightarrow> string \<times> string" where
  "posix_splitext p =
     (let ext = rev (takeWhile (\<lambda>c. c \<noteq> CHR ''.'') (rev p));
          n = length p - length ext - 1
      in if CHR ''.'' \<in> set p \<and> (\<exists>c\<in>set (take n p). c \<noteq> CHR ''.'')
         then (take n p, drop n p)
         else (p, []))"

definition good_imaging :: imaging where
  "good_imaging =
     \<lparr> image_open = (\<lambda>_. Inr \<lparr> im_size = (600, 400), im_mode = ''RGB'' \<rparr>),
       getexif = (\<lambda>_. Inr None),
       image_exit = (\<lambda>_. Inr ()),
       convert = (\<lambda>im mode. Inr (im \<lparr> im_mode := mode \<rparr>)),
       isfile = (\<lambda>_. False),
       truetype = (\<lambda>_ _. Inl OSError),
       load_default = Inr getsize_font,
       Draw = (\<lambda>_. Inr bbox_draw),
       makedirs = (\<lambda>_. Inr ()),
       save = (\<lambda>_ _ _. Inr ()),
       print_msg = (\<lambda>_. Inr ()),
       basename = (\<lambda>p. rev (takeWhile (\<lambda>c. c \<noteq> CHR ''/'') (rev p))),
       splitext = posix_splitext,
       join = (\<lambda>a b. a @ ''/'' @ b) \<rparr>"

text \<open>The same library on a disk where the image cannot be written.\<close>

definition full_disk_imaging :: imaging where
  "full_disk_imaging = good_imaging \<lparr> save := (\<lambda>_ _ _. Inl OSError) \<rparr>"

text \<open>The same library when the file cannot be read.\<close>

definition unreadable_imaging :: imaging where
  "unreadable_imaging = good_imaging \<lparr> image_open := (\<lambda>_. Inl OSError) \<rparr>"

text \<open>
  The same library when drawing fails: \<^verbatim>\<open>draw.text\<close> raises \<^verbatim>\<open>MemoryError\<close>, as it does
  when the text cannot be rasterised for lack of memory.
\<close>

definition failing_draw_imaging :: imaging where
  "failing_draw_imaging =
     good_imaging \<lparr> Draw := (\<lambda>_. Inr (bbox_draw
        \<lparr> draw_text := (\<lambda>_ _ _ _. Inl (OtherException ''MemoryError'')) \<rparr>)) \<rparr>"

text \<open>
  A library with a console whose encoding lacks the characters of the messages: every
  \<^verbatim>\<open>print\<close> of the function raises \<^verbatim>\<open>UnicodeEncodeError\<close>.
\<close>

definition ascii_console :: "imaging \<Rightarrow> imaging" where
  "ascii_console env = env \<lparr> print_msg := (\<lambda>_. Inl (OtherException ''UnicodeEncodeError'')) \<rparr>"

section \<open>Lemmas about the string operations\<close>

lemmas string_eval =
  py_strip_def is_space_def code_of_def py_replace_def int_space_def digit_value_def
  skip_sign_def skip_prefix_def py_int_def int_max_str_digits_def

lemmas date_eval =
  parse_ymd_def bind_res_def datetime_def fits_c_int_def days_in_month_def is_leap_def
  strftime_ymd_def zero_pad_def digit_char_def dec_digits.simps

lemma is_decimal_facts:
  assumes "is_decimal c"
  shows "digit_value c = Some (code_of c - 48)" and "code_of c - 48 < 10"
    and "\<not> is_space c" and "\<not> int_space c"
    and "c \<noteq> CHR ''_''" and "c \<noteq> CHR ''+''" and "c \<noteq> CHR ''-''"
    and "c \<noteq> CHR '':''" and "c \<noteq> CHR '' ''"
    and "digit_char (code_of c - 48) = c"
  using assms
  by (auto simp: is_decimal_def digit_value_def code_of_def is_space_def int_space_def
      digit_char_def)

lemma scan_digits_decimal:
  "\<forall>c\<in>set ds. is_decimal c \<Longrightarrow> prev \<noteq> CHR ''_'' \<Longrightarrow>
   scan_digits 10 prev ds = Some (map (\<lambda>c. code_of c - 48) ds, [])"
proof (induction ds arbitrary: prev)
  case Nil
  then show ?case by simp
next
  case (Cons c ds)
  then have c: "is_decimal c" by simp
  from Cons have "scan_digits 10 c ds = Some (map (\<lambda>c. code_of c - 48) ds, [])"
    using is_decimal_facts(5) [OF c] by simp
  then show ?case
    using is_decimal_facts [OF c] by simp
qed

lemma py_int_decimal:
  assumes "ds \<noteq> []" and "\<forall>c\<in>set ds. is_decimal c" and "length ds \<le> 4300"
  shows "py_int 10 ds = Inr (int (decimal_value ds))"
proof -
  obtain c cs where ds: "ds = c # cs" using assms(1) by (cases ds) auto
  then have c: "is_decimal c" using assms(2) by simp
  have a: "dropWhile int_space ds = ds"
    using ds is_decimal_facts [OF c] by simp
  have b: "skip_sign ds = (1, ds)"
    using ds is_decimal_facts [OF c] by (simp add: skip_sign_def)
  have p: "skip_prefix 10 ds = ds"
    by (simp add: skip_prefix_def split: list.splits)
  have s: "scan_digits 10 (CHR 0x00) ds = Some (map (\<lambda>c. code_of c - 48) ds, [])"
    by (rule scan_digits_decimal) (use assms(2) in auto)
  have h: "hd ds \<noteq> CHR ''_''"
    using ds is_decimal_facts(5) [OF c] by simp
  show ?thesis
    using assms(1,3) h
    by (simp add: py_int_def a b p s int_max_str_digits_def decimal_value_def foldl_map
        del: scan_digits.simps)
qed

lemma decimal_value_snoc:
  "decimal_value (ds @ [c]) = decimal_value ds * 10 + (code_of c - 48)"
  by (simp add: decimal_value_def)

lemma decimal_value_zero:
  "\<forall>c\<in>set ds. is_decimal c \<Longrightarrow> decimal_value ds = 0 \<Longrightarrow>
   ds = replicate (length ds) (CHR ''0'')"
proof (induction ds rule: rev_induct)
  case Nil
  then show ?case by simp
next
  case (snoc c ds)
  then have c: "is_decimal c" by simp
  from snoc.prems(2) have z: "decimal_value ds = 0" "code_of c - 48 = 0"
    by (simp_all add: decimal_value_snoc)
  have "c = CHR ''0''"
    using is_decimal_facts(10) [OF c] z(2) by (simp add: digit_char_def)
  moreover have "ds = replicate (length ds) (CHR ''0'')"
    using snoc z(1) by simp
  ultimately show ?case
    by (metis length_append_singleton replicate_Suc replicate_append_same)
qed

lemma dec_digits_step:
  "d < 10 \<Longrightarrow> dec_digits (n * 10 + d) =
     (if n = 0 then [digit_char d] else dec_digits n @ [digit_char d])"
  by (subst dec_digits.simps) auto

lemma dec_digits_small: "d < 10 \<Longrightarrow> dec_digits d = [digit_char d]"
  by (subst dec_digits.simps) simp

lemma zero_pad_snoc:
  "zero_pad (Suc k) (s @ [c]) = zero_pad k s @ [c]"
  by (simp add: zero_pad_def)

lemma zero_pad_decimal:
  "\<forall>c\<in>set ds. is_decimal c \<Longrightarrow> ds \<noteq> [] \<Longrightarrow>
   zero_pad (length ds) (dec_digits (decimal_value ds)) = ds"
proof (induction ds rule: rev_induct)
  case Nil
  then show ?case by simp
next
  case (snoc c ds)
  then have c: "is_decimal c" by simp
  have all: "\<forall>c\<in>set ds. is_decimal c" using snoc.prems by simp
  note f = is_decimal_facts [OF c]
  show ?case
  proof (cases "decimal_value ds = 0")
    case True
    then have "ds = replicate (length ds) (CHR ''0'')"
      using decimal_value_zero [OF all] by simp
    then have "replicate (length ds) (CHR ''0'') = ds" by simp
    then show ?thesis
      using True f(2) f(10)
      by (simp add: decimal_value_snoc dec_digits_small zero_pad_def)
  next
    case False
    then have ne: "ds \<noteq> []" by (auto simp: decimal_value_def)
    have "zero_pad (length ds) (dec_digits (decimal_value ds)) = ds"
      using snoc.IH all ne by simp
    then show ?thesis
      using False f(2) f(10)
      by (simp add: decimal_value_snoc dec_digits_step zero_pad_snoc)
  qed
qed

lemma dec_digits_length_pos: "1 \<le> length (dec_digits n)"
  by (subst dec_digits.simps) simp

lemma dec_digits_length_step:
  "10 \<le> n \<Longrightarrow> length (dec_digits n) = Suc (length (dec_digits (n div 10)))"
  by (subst dec_digits.simps) simp

lemma dec_digits_length_4:
  assumes "1000 \<le> n"
  shows "4 \<le> length (dec_digits n)"
proof -
  have a: "10 \<le> n" "10 \<le> n div 10" "10 \<le> n div 10 div 10"
    using assms by arith+
  show ?thesis
    using dec_digits_length_pos [of "n div 10 div 10 div 10"]
    by (simp add: dec_digits_length_step a)
qed

lemma zero_pad_long: "w \<le> length s \<Longrightarrow> zero_pad w s = s"
  by (simp add: zero_pad_def)

lemma py_split_nonempty: "py_split sep s \<noteq> []"
  by (induction s) (auto split: list.splits)

lemma py_split_no_sep: "sep \<notin> set a \<Longrightarrow> py_split sep a = [a]"
  by (induction a) auto

lemma py_split_first:
  "sep \<notin> set a \<Longrightarrow> py_split sep (a @ sep # r) = a # py_split sep r"
  by (induction a) auto

lemma rstrip_prefix:
  "\<exists>t. xs = rev (dropWhile P (rev xs)) @ t"
  by (metis rev_append rev_rev_ident takeWhile_dropWhile_id)

lemma py_strip_core:
  assumes "a \<noteq> []" and "\<not> is_space (hd a)" and "\<not> is_space (last a)"
  shows "py_strip (a @ rest) = a @ rev (dropWhile is_space (rev rest))"
proof -
  obtain x a' where a: "a = x # a'" using assms(1) by (cases a) auto
  have l: "dropWhile is_space (a @ rest) = a @ rest"
    using a assms(2) by simp
  have ra: "dropWhile is_space (rev a) = rev a"
    using assms(1,3) by (cases "rev a") (auto simp: last_rev [symmetric] hd_rev)
  have "dropWhile is_space (rev rest @ rev a) = dropWhile is_space (rev rest) @ rev a"
  proof (cases "\<forall>c\<in>set (rev rest). is_space c")
    case True
    then have "dropWhile is_space (rev rest) = []" by simp
    moreover have "dropWhile is_space (rev rest @ rev a) = dropWhile is_space (rev a)"
      using True by (intro dropWhile_append2) simp
    ultimately show ?thesis by (simp add: ra)
  next
    case False
    then show ?thesis by (auto simp: dropWhile_append1)
  qed
  then show ?thesis
    by (simp add: py_strip_def l)
qed

lemma date_part_of:
  assumes "a \<noteq> []" and "\<not> is_space (hd a)" and "\<not> is_space (last a)"
    and "CHR '' '' \<notin> set a" and "rest = [] \<or> (\<exists>r. rest = CHR '' '' # r)"
  shows "\<exists>ps. py_split (CHR '' '') (py_strip (a @ rest)) = a # ps"
proof -
  define rest' where "rest' = rev (dropWhile is_space (rev rest))"
  obtain t where t: "rest = rest' @ t"
    using rstrip_prefix [of rest is_space] by (auto simp: rest'_def)
  have s: "py_strip (a @ rest) = a @ rest'"
    using py_strip_core [OF assms(1-3)] by (simp add: rest'_def)
  show ?thesis
  proof (cases rest')
    case Nil
    then show ?thesis using s assms(4) by (simp add: py_split_no_sep)
  next
    case (Cons c r')
    then have "c = CHR '' ''" using t assms(5) by auto
    then show ?thesis using s Cons assms(4) by (simp add: py_split_first)
  qed
qed

section \<open>Results about \<^verbatim>\<open>format_exif_raw\<close>\<close>

lemma take_3:
  "3 \<le> length xs \<Longrightarrow> take 3 xs = [xs ! 0, xs ! 1, xs ! 2]"
  by (cases xs; cases "tl xs"; cases "tl (tl xs)") auto

lemma format_exif_raw_str:
  "format_exif_raw pads (PyStr s) =
     (if s \<noteq> [] \<and> 3 \<le> length (date_components s) then
        (case parse_ymd pads (date_components s) of
           Inr r \<Rightarrow> Inr (Some r)
         | Inl _ \<Rightarrow> Inr None)
      else Inr None)"
  using py_split_nonempty [of "CHR '' ''" "py_strip s"]
  by (cases "py_split (CHR '' '') (py_strip s)")
    (auto simp: format_exif_raw_def date_components_def Let_def)

lemma format_exif_raw_total: "\<exists>r. format_exif_raw pads raw = Inr r"
proof (cases raw)
  case (PyStr s)
  then show ?thesis
    by (simp add: format_exif_raw_str split: sum.splits)
qed (simp_all add: format_exif_raw_def)

lemma strftime_ymd_nonempty: "strftime_ymd pads dt \<noteq> []"
  by (cases dt) (simp add: strftime_ymd_def)

lemma parse_ymd_nonempty: "parse_ymd pads parts = Inr r \<Longrightarrow> r \<noteq> []"
  by (auto simp: parse_ymd_def bind_res_def strftime_ymd_nonempty
      split: list.splits sum.splits)

lemma format_exif_raw_nonempty: "format_exif_raw pads raw = Inr (Some d) \<Longrightarrow> d \<noteq> []"
proof (cases raw)
  case (PyStr s)
  assume "format_exif_raw pads raw = Inr (Some d)"
  then show ?thesis
    using PyStr parse_ymd_nonempty [of pads "date_components s" d]
    by (auto simp: format_exif_raw_str split: if_splits sum.splits)
qed (simp_all add: format_exif_raw_def)

lemma days_in_month_bounds:
  assumes "1 \<le> m" and "m \<le> 12"
  shows "28 \<le> days_in_month y m \<and> days_in_month y m \<le> 31"
proof -
  have "m = 1 \<or> m = 2 \<or> m = 3 \<or> m = 4 \<or> m = 5 \<or> m = 6
      \<or> m = 7 \<or> m = 8 \<or> m = 9 \<or> m = 10 \<or> m = 11 \<or> m = 12"
    using assms by arith
  then show ?thesis
    by (auto simp: days_in_month_def)
qed

lemma datetime_valid: "valid_ymd y m d \<Longrightarrow> datetime y m d = Inr (y, m, d)"
  using days_in_month_bounds [of m y]
  by (auto simp: valid_ymd_def datetime_def fits_c_int_def)

lemma datetime_invalid: "\<not> valid_ymd y m d \<Longrightarrow> isl (datetime y m d)"
  by (auto simp: valid_ymd_def datetime_def)

lemma parse_ymd_parts:
  "3 \<le> length parts \<Longrightarrow>
   parse_ymd pads parts =
     bind_res (py_int 10 (parts ! 0)) (\<lambda>yi.
     bind_res (py_int 10 (parts ! 1)) (\<lambda>mi.
     bind_res (py_int 10 (parts ! 2)) (\<lambda>di.
     bind_res (datetime yi mi di) (\<lambda>dt.
     Inr (strftime_ymd pads dt)))))"
  by (simp add: parse_ymd_def take_3)

lemma canonical_date_digits:
  assumes "length Y = 4" and "length M = 2" and "length D = 2"
    and "\<forall>c\<in>set (Y @ M @ D). is_decimal c"
  shows "canonical_date (int (decimal_value Y), int (decimal_value M), int (decimal_value D))
         = Y @ ''-'' @ M @ ''-'' @ D"
proof -
  have ne: "Y \<noteq> []" "M \<noteq> []" "D \<noteq> []"
    using assms(1-3) by auto
  have all: "\<forall>c\<in>set Y. is_decimal c" "\<forall>c\<in>set M. is_decimal c" "\<forall>c\<in>set D. is_decimal c"
    using assms(4) by auto
  have "zero_pad 4 (dec_digits (decimal_value Y)) = Y"
    using zero_pad_decimal [OF all(1) ne(1)] assms(1) by simp
  moreover have "zero_pad 2 (dec_digits (decimal_value M)) = M"
    using zero_pad_decimal [OF all(2) ne(2)] assms(2) by simp
  moreover have "zero_pad 2 (dec_digits (decimal_value D)) = D"
    using zero_pad_decimal [OF all(3) ne(3)] assms(3) by simp
  ultimately show ?thesis
    by (simp add: canonical_date_def)
qed

lemma strftime_ymd_canonical:
  "pads \<or> 1000 \<le> y \<Longrightarrow> strftime_ymd pads (y, m, d) = canonical_date (y, m, d)"
  using dec_digits_length_4 [of "nat y"]
  by (auto simp: strftime_ymd_def canonical_date_def zero_pad_long)

text \<open>
  The date components of a raw string that starts with a date in the form of the claim.
\<close>

lemma py_replace_append:
  "py_replace old new (xs @ ys) = py_replace old new xs @ py_replace old new ys"
  by (simp add: py_replace_def)

lemma py_replace_Cons:
  "py_replace old new (c # cs) = (if c = old then new else c) # py_replace old new cs"
  by (simp add: py_replace_def)

lemma py_replace_decimal:
  assumes "\<forall>c\<in>set xs. is_decimal c"
  shows "py_replace (CHR ''-'') (CHR '':'') xs = xs"
proof -
  have "\<And>c. c \<in> set xs \<Longrightarrow> c \<noteq> CHR ''-''"
    using assms is_decimal_facts(7) by blast
  then show ?thesis
    unfolding py_replace_def by (intro map_idI) simp
qed

lemma date_components_of:
  assumes "length Y = 4" and "length M = 2" and "length D = 2"
    and dec: "\<forall>c\<in>set (Y @ M @ D). is_decimal c"
    and s1: "s1 = CHR '':'' \<or> s1 = CHR ''-''"
    and s2: "s2 = CHR '':'' \<or> s2 = CHR ''-''"
    and rest: "rest = [] \<or> (\<exists>r. rest = CHR '' '' # r)"
  shows "date_components (Y @ s1 # M @ s2 # D @ rest) = [Y, M, D]"
proof -
  define a where "a = Y @ s1 # M @ s2 # D"
  have decY: "\<forall>c\<in>set Y. is_decimal c" and decM: "\<forall>c\<in>set M. is_decimal c"
    and decD: "\<forall>c\<in>set D. is_decimal c"
    using dec by auto
  have sp: "\<not> is_space (CHR '':'')" "\<not> is_space (CHR ''-'')" "is_space (CHR '' '')"
    by (simp_all add: is_space_def code_of_def)
  have sps: "\<not> is_space s1" "\<not> is_space s2"
    using s1 s2 sp by blast+
  have seta: "set a = set Y \<union> {s1} \<union> set M \<union> {s2} \<union> set D"
    by (auto simp: a_def)
  have nsp: "\<not> is_space c" if "c \<in> set a" for c
    using that decY decM decD is_decimal_facts(3) sps unfolding seta by blast
  have ne: "a \<noteq> []" by (simp add: a_def)
  then have "hd a \<in> set a" and "last a \<in> set a" by simp_all
  then have h: "\<not> is_space (hd a)" and l: "\<not> is_space (last a)"
    using nsp by blast+
  have ns: "CHR '' '' \<notin> set a" using nsp sp(3) by blast
  from ne obtain ps where "py_split (CHR '' '') (py_strip (a @ rest)) = a # ps"
    using date_part_of [OF _ h l ns rest] by blast
  then have 1: "hd (py_split (CHR '' '') (py_strip (Y @ s1 # M @ s2 # D @ rest))) = a"
    by (simp add: a_def)
  have r: "(if s1 = CHR ''-'' then CHR '':'' else s1) = CHR '':''"
    "(if s2 = CHR ''-'' then CHR '':'' else s2) = CHR '':''"
    using s1 s2 by auto
  have 2: "py_replace (CHR ''-'') (CHR '':'') a = Y @ CHR '':'' # M @ CHR '':'' # D"
    unfolding a_def py_replace_append py_replace_Cons
    by (simp only: py_replace_decimal [OF decY] py_replace_decimal [OF decM]
        py_replace_decimal [OF decD] r)
  have nc: "CHR '':'' \<notin> set Y" "CHR '':'' \<notin> set M" "CHR '':'' \<notin> set D"
    using decY decM decD is_decimal_facts(8) by blast+
  have "py_split (CHR '':'') (Y @ CHR '':'' # M @ CHR '':'' # D) = [Y, M, D]"
    by (simp only: py_split_first [OF nc(1)] py_split_first [OF nc(2)] py_split_no_sep [OF nc(3)])
  then show ?thesis
    by (simp only: date_components_def 1 2)
qed

text \<open>
  Normalization of a well-formed date. On a runtime that zero fills \<^verbatim>\<open>%Y\<close>, or for a
  year from 1000 on, a raw string that starts with four, two and two decimal digits
  separated by colons or hyphens, followed by nothing or by a space and any text, and
  whose three numbers are a valid date, is normalized to exactly those digits joined by
  hyphens.
\<close>

lemma format_exif_raw_canonical:
  assumes len: "length Y = 4" "length M = 2" "length D = 2"
    and dec: "\<forall>c\<in>set (Y @ M @ D). is_decimal c"
    and s1: "s1 = CHR '':'' \<or> s1 = CHR ''-''"
    and s2: "s2 = CHR '':'' \<or> s2 = CHR ''-''"
    and rest: "rest = [] \<or> (\<exists>r. rest = CHR '' '' # r)"
    and valid: "valid_ymd (int (decimal_value Y)) (int (decimal_value M)) (int (decimal_value D))"
    and year: "pads \<or> 1000 \<le> decimal_value Y"
  shows "format_exif_raw pads (PyStr (Y @ s1 # M @ s2 # D @ rest)) = Inr (Some (Y @ ''-'' @ M @ ''-'' @ D))"
proof -
  have parts: "date_components (Y @ s1 # M @ s2 # D @ rest) = [Y, M, D]"
    by (rule date_components_of [OF len dec s1 s2 rest])
  have ints: "py_int 10 Y = Inr (int (decimal_value Y))"
    "py_int 10 M = Inr (int (decimal_value M))"
    "py_int 10 D = Inr (int (decimal_value D))"
    using len dec by (auto intro!: py_int_decimal)
  have fmt: "strftime_ymd pads (int (decimal_value Y), int (decimal_value M), int (decimal_value D))
      = Y @ ''-'' @ M @ ''-'' @ D"
    using year canonical_date_digits [OF len dec]
    by (subst strftime_ymd_canonical) auto
  have "parse_ymd pads [Y, M, D] = Inr (Y @ ''-'' @ M @ ''-'' @ D)"
    by (simp add: parse_ymd_parts ints bind_res_def datetime_valid [OF valid] fmt)
  then show ?thesis
    by (simp add: format_exif_raw_str parts)
qed

text \<open>
  C1 (the defect). On a runtime that does not zero fill \<^verbatim>\<open>%Y\<close> the raw string "0999:01:02 10:00:00", a valid
  date in the form of the claim, is normalized to "999-01-02", which is not the
  canonical "0999-01-02": \<^verbatim>\<open>strftime("%Y")\<close> does not fill the year there.
\<close>

theorem format_exif_raw_year_below_1000:
  "format_exif_raw False (PyStr ''0999:01:02 10:00:00'') = Inr (Some ''999-01-02'')"
  by (simp add: format_exif_raw_def string_eval date_eval)

theorem format_exif_raw_year_below_1000_witness:
  "py_truthy (PyStr ''0999:01:02 10:00:00'')
   \<and> isinstance_str (PyStr ''0999:01:02 10:00:00'')
   \<and> valid_ymd 999 1 2
   \<and> format_exif_raw False (PyStr ''0999:01:02 10:00:00'') \<noteq> Inr (Some ''0999-01-02'')"
  using format_exif_raw_year_below_1000
  by (simp add: valid_ymd_def days_in_month_def)

text \<open>
  C2. \<^verbatim>\<open>format_exif_raw\<close> never raises, and it returns \<^verbatim>\<open>None\<close> for a string whose date
  part has fewer than three components, for one where \<^verbatim>\<open>int\<close> rejects one of the
  first three components, and for one whose first three components are integers that
  are not a valid date; so for "2023:13:40" and for "not-a-date".
\<close>

theorem format_exif_raw_rejects:
  "(\<exists>r. format_exif_raw pads raw = Inr r)
   \<and> (length (date_components s) < 3 \<longrightarrow> format_exif_raw pads (PyStr s) = Inr None)
   \<and> (3 \<le> length (date_components s)
        \<and> (isl (py_int 10 (date_components s ! 0))
             \<or> isl (py_int 10 (date_components s ! 1))
             \<or> isl (py_int 10 (date_components s ! 2)))
        \<longrightarrow> format_exif_raw pads (PyStr s) = Inr None)
   \<and> (3 \<le> length (date_components s)
        \<and> py_int 10 (date_components s ! 0) = Inr y
        \<and> py_int 10 (date_components s ! 1) = Inr m
        \<and> py_int 10 (date_components s ! 2) = Inr d
        \<and> \<not> valid_ymd y m d
        \<longrightarrow> format_exif_raw pads (PyStr s) = Inr None)
   \<and> format_exif_raw pads (PyStr ''2023:13:40'') = Inr None
   \<and> format_exif_raw pads (PyStr ''not-a-date'') = Inr None"
proof -
  have a: "\<exists>r. format_exif_raw pads raw = Inr r"
    by (rule format_exif_raw_total)
  have b: "length (date_components s) < 3 \<longrightarrow> format_exif_raw pads (PyStr s) = Inr None"
    by (simp add: format_exif_raw_str)
  have c: "3 \<le> length (date_components s)
        \<and> (isl (py_int 10 (date_components s ! 0))
             \<or> isl (py_int 10 (date_components s ! 1))
             \<or> isl (py_int 10 (date_components s ! 2)))
        \<longrightarrow> format_exif_raw pads (PyStr s) = Inr None"
    by (auto simp: format_exif_raw_str parse_ymd_parts bind_res_def isl_def
        split: sum.splits)
  have d: "3 \<le> length (date_components s)
        \<and> py_int 10 (date_components s ! 0) = Inr y
        \<and> py_int 10 (date_components s ! 1) = Inr m
        \<and> py_int 10 (date_components s ! 2) = Inr d
        \<and> \<not> valid_ymd y m d
        \<longrightarrow> format_exif_raw pads (PyStr s) = Inr None"
  proof (intro impI, elim conjE)
    assume "3 \<le> length (date_components s)"
      and "py_int 10 (date_components s ! 0) = Inr y"
      and "py_int 10 (date_components s ! 1) = Inr m"
      and "py_int 10 (date_components s ! 2) = Inr d"
      and "\<not> valid_ymd y m d"
    moreover from this obtain e where "datetime y m d = Inl e"
      using datetime_invalid [of y m d] by (auto simp: isl_def)
    ultimately show "format_exif_raw pads (PyStr s) = Inr None"
      by (simp add: format_exif_raw_str parse_ymd_parts bind_res_def)
  qed
  have e: "format_exif_raw pads (PyStr ''2023:13:40'') = Inr None"
    by (simp add: format_exif_raw_def string_eval date_eval)
  have f: "format_exif_raw pads (PyStr ''not-a-date'') = Inr None"
    by (simp add: format_exif_raw_def string_eval date_eval)
  from a b c d e f show ?thesis by blast
qed

theorem format_exif_raw_rejects_witness:
  "length (date_components ''2023:07'') < 3
   \<and> format_exif_raw False (PyStr ''2023:07'') = Inr None
   \<and> 3 \<le> length (date_components ''not-a-date'')
   \<and> isl (py_int 10 (date_components ''not-a-date'' ! 0))
   \<and> format_exif_raw False (PyStr ''not-a-date'') = Inr None
   \<and> 3 \<le> length (date_components ''2023:13:40'')
   \<and> py_int 10 (date_components ''2023:13:40'' ! 0) = Inr 2023
   \<and> py_int 10 (date_components ''2023:13:40'' ! 1) = Inr 13
   \<and> py_int 10 (date_components ''2023:13:40'' ! 2) = Inr 40
   \<and> \<not> valid_ymd 2023 13 40
   \<and> format_exif_raw False (PyStr ''2023:13:40'') = Inr None"
proof -
  have 1: "date_components ''2023:07'' = [''2023'', ''07'']"
    by (simp add: date_components_def string_eval)
  have 2: "date_components ''not-a-date'' = [''not'', ''a'', ''date'']"
    by (simp add: date_components_def string_eval)
  have 3: "date_components ''2023:13:40'' = [''2023'', ''13'', ''40'']"
    by (simp add: date_components_def string_eval)
  have 4: "isl (py_int 10 ''not'')"
    by (simp add: string_eval)
  have 5: "py_int 10 ''2023'' = Inr 2023" "py_int 10 ''13'' = Inr 13" "py_int 10 ''40'' = Inr 40"
    by (simp_all add: string_eval)
  have 6: "\<not> valid_ymd 2023 13 40"
    by (simp add: valid_ymd_def)
  show ?thesis
    using format_exif_raw_rejects [of False PyNone "''2023:07''"]
      format_exif_raw_rejects [of False PyNone "''not-a-date''"]
      format_exif_raw_rejects [of False PyNone "''2023:13:40''" 2023 13 40]
    by (simp add: 1 2 3 4 5 6)
qed

section \<open>Results about the date-resolution chain\<close>

lemma utf8_decode_examples:
  "utf8_decode ''2022:07:04 10:00:00'' = Inr ''2022:07:04 10:00:00''"
  "utf8_decode ''2021:01:01 00:00:00'' = Inr ''2021:01:01 00:00:00''"
  by (simp_all add: code_of_def bind_res_def)

lemmas world_eval =
  example_world_def piexif_dict_def utf8_decode_examples ifd_get_def decode_or_str_def piexif_body_def
  get_date_from_piexif_def pillow_body_def get_date_from_pillow_def tag_map_def
  ExifTags_TAGS_def ExifIFD_DateTimeOriginal_def ImageIFD_DateTime_def date_truthy_def
  mtime_body_def mtime_tier_def get_date_string_def format_exif_raw_def

lemma utc_fromtimestamp_examples:
  "utc_fromtimestamp 1700000000 = Inr (2023, 11, 14)"
  "utc_fromtimestamp 253402300800 = Inl ValueError"
  by code_simp+

lemmas time_eval = utc_fromtimestamp_examples

lemma tag_map_names:
  "tag_map ''DateTimeOriginal'' = Some 0x9003"
  "tag_map ''DateTime'' = Some 0x0132"
  "tag_map ''DateTimeDigitized'' = Some 0x9004"
  by (simp_all add: tag_map_def ExifTags_TAGS_def)

lemma probe_tags_probed:
  "probe_tags pads dict [''DateTimeOriginal'', ''DateTime'', ''DateTimeDigitized''] =
     (case probed_value dict of
        None \<Rightarrow> Inr None
      | Some v \<Rightarrow> format_exif_raw pads v)"
  by (simp add: tag_map_names probed_value_def present_value_def split: option.splits)

lemma probed_value_Nil: "probed_value [] = None"
  by (simp add: probed_value_def present_value_def)

lemma get_date_from_pillow_probed:
  assumes "pillow_getexif w p = Inr (Some dict)"
  shows "get_date_from_pillow w p =
     (case probed_value dict of
        None \<Rightarrow> Inr None
      | Some v \<Rightarrow> format_exif_raw (strftime_pads_year w) v)"
proof (cases "probed_value dict")
  case None
  then show ?thesis
    using assms
    by (simp add: get_date_from_pillow_def pillow_body_def bind_res_def probe_tags_probed
        del: probe_tags.simps)
next
  case (Some v)
  then have "dict \<noteq> []" using probed_value_Nil by auto
  moreover obtain r where "format_exif_raw (strftime_pads_year w) v = Inr r"
    using format_exif_raw_total by blast
  ultimately show ?thesis
    using assms Some
    by (simp add: get_date_from_pillow_def pillow_body_def bind_res_def probe_tags_probed
        del: probe_tags.simps)
qed

lemma get_date_from_piexif_total: "\<exists>r. get_date_from_piexif w p = Inr r"
  by (simp add: get_date_from_piexif_def split: sum.splits)

lemma get_date_from_pillow_total: "\<exists>r. get_date_from_pillow w p = Inr r"
  by (simp add: get_date_from_pillow_def split: sum.splits)

lemma mtime_tier_total: "\<exists>r. mtime_tier w p = Inr r"
  by (simp add: mtime_tier_def split: sum.splits)

lemma get_date_string_total: "\<exists>r. get_date_string w p = Inr r"
proof -
  obtain a where a: "get_date_from_piexif w p = Inr a"
    using get_date_from_piexif_total by blast
  obtain b where b: "get_date_from_pillow w p = Inr b"
    using get_date_from_pillow_total by blast
  obtain c where c: "mtime_tier w p = Inr c"
    using mtime_tier_total by blast
  show ?thesis
    by (simp add: get_date_string_def bind_res_def a b c)
qed

lemma get_date_from_piexif_nonempty:
  assumes "get_date_from_piexif w p = Inr (Some d)"
  shows "HAVE_PIEXIF w \<and> d \<noteq> []"
proof -
  have h: "HAVE_PIEXIF w"
    using assms by (auto simp: get_date_from_piexif_def split: if_splits)
  then have "piexif_body w p = Inr (Some d)"
    using assms by (auto simp: get_date_from_piexif_def split: sum.splits)
  then obtain raw where "format_exif_raw (strftime_pads_year w) raw = Inr (Some d)"
    by (auto simp: piexif_body_def bind_res_def Let_def split: sum.splits if_splits)
  then show ?thesis
    using h format_exif_raw_nonempty by blast
qed

text \<open>
  C10. \<^verbatim>\<open>format_exif_raw\<close> returns \<^verbatim>\<open>None\<close>, without raising, for every value that is not
  a \<^verbatim>\<open>str\<close> (so for \<^verbatim>\<open>None\<close> and for every byte string) and for the empty string.
  Hence, when the value the Pillow tier uses, the first present and non-empty one in its
  probing order, is a byte string, the tier returns \<^verbatim>\<open>None\<close>.
\<close>

theorem format_exif_raw_non_text:
  "(\<not> isinstance_str raw \<longrightarrow> format_exif_raw pads raw = Inr None)
   \<and> format_exif_raw pads PyNone = Inr None
   \<and> format_exif_raw pads (PyBytes b) = Inr None
   \<and> format_exif_raw pads (PyStr []) = Inr None
   \<and> (pillow_getexif w p = Inr (Some dict) \<and> probed_value dict = Some (PyBytes b) \<longrightarrow>
        get_date_from_pillow w p = Inr None)"
proof -
  have "pillow_getexif w p = Inr (Some dict) \<and> probed_value dict = Some (PyBytes b) \<longrightarrow>
        get_date_from_pillow w p = Inr None"
    by (simp add: get_date_from_pillow_probed format_exif_raw_def)
  then show ?thesis
    by (simp add: format_exif_raw_def)
qed

theorem format_exif_raw_non_text_witness:
  "\<not> isinstance_str (PyObject True ''20220704'')
   \<and> format_exif_raw False (PyObject True ''20220704'') = Inr None
   \<and> pillow_getexif bytes_world ''a.jpg''
       = Inr (Some [(36867, PyBytes ''2022:07:04 10:00:00''), (306, PyStr ''2020:05:05 09:00:00'')])
   \<and> probed_value [(36867, PyBytes ''2022:07:04 10:00:00''), (306, PyStr ''2020:05:05 09:00:00'')]
       = Some (PyBytes ''2022:07:04 10:00:00'')
   \<and> get_date_from_pillow bytes_world ''a.jpg'' = Inr None"
  using format_exif_raw_non_text [of "PyObject True ''20220704''" False "''2022:07:04 10:00:00''"
      bytes_world "''a.jpg''"
      "[(36867, PyBytes ''2022:07:04 10:00:00''), (306, PyStr ''2020:05:05 09:00:00'')]"]
  by (simp add: bytes_world_def example_world_def probed_value_def present_value_def)

text \<open>
  C3. A date the primary backend yields is the result of \<^verbatim>\<open>get_date_string\<close>, whatever
  the other tiers hold. In the primary backend a true DateTimeOriginal decides the result
  alone; DateTime is read only when DateTimeOriginal is missing or empty. The Pillow tier
  normalizes the first present, non-empty value in the order DateTimeOriginal, DateTime,
  DateTimeDigitized.
\<close>

theorem get_date_string_tier_priority:
  "(get_date_from_piexif w p = Inr (Some d) \<longrightarrow> get_date_string w p = Inr (Some d))
   \<and> (HAVE_PIEXIF w \<and> piexif_load w p = Inr exif
        \<and> py_truthy (ifd_get exif ''Exif'' 0x9003) \<longrightarrow>
        get_date_from_piexif w p =
          (case decode_or_str w (ifd_get exif ''Exif'' 0x9003) of
             Inl _ \<Rightarrow> Inr None
           | Inr raw \<Rightarrow> format_exif_raw (strftime_pads_year w) (PyStr raw)))
   \<and> (HAVE_PIEXIF w \<and> piexif_load w p = Inr exif
        \<and> \<not> py_truthy (ifd_get exif ''Exif'' 0x9003)
        \<and> py_truthy (ifd_get exif ''0th'' 0x0132) \<longrightarrow>
        get_date_from_piexif w p =
          (case decode_or_str w (ifd_get exif ''0th'' 0x0132) of
             Inl _ \<Rightarrow> Inr None
           | Inr raw \<Rightarrow> format_exif_raw (strftime_pads_year w) (PyStr raw)))
   \<and> (pillow_getexif w p = Inr (Some dict) \<longrightarrow>
        get_date_from_pillow w p =
          (case probed_value dict of
             None \<Rightarrow> Inr None
           | Some v \<Rightarrow> format_exif_raw (strftime_pads_year w) v))"
proof -
  have a: "get_date_from_piexif w p = Inr (Some d) \<longrightarrow> get_date_string w p = Inr (Some d)"
    using get_date_from_piexif_nonempty [of w p d]
    by (auto simp: get_date_string_def bind_res_def date_truthy_def)
  have tot: "\<And>raw. (case format_exif_raw (strftime_pads_year w) raw of
                      Inl _ \<Rightarrow> Inr None | Inr r \<Rightarrow> Inr r)
                    = format_exif_raw (strftime_pads_year w) raw"
    using format_exif_raw_total [of "strftime_pads_year w"]
    by (metis sum.simps(6))
  have b: "HAVE_PIEXIF w \<and> piexif_load w p = Inr exif
        \<and> py_truthy (ifd_get exif ''Exif'' 0x9003) \<longrightarrow>
        get_date_from_piexif w p =
          (case decode_or_str w (ifd_get exif ''Exif'' 0x9003) of
             Inl _ \<Rightarrow> Inr None
           | Inr raw \<Rightarrow> format_exif_raw (strftime_pads_year w) (PyStr raw))"
    by (auto simp: get_date_from_piexif_def piexif_body_def bind_res_def
        ExifIFD_DateTimeOriginal_def tot split: sum.splits)
  have c: "HAVE_PIEXIF w \<and> piexif_load w p = Inr exif
        \<and> \<not> py_truthy (ifd_get exif ''Exif'' 0x9003)
        \<and> py_truthy (ifd_get exif ''0th'' 0x0132) \<longrightarrow>
        get_date_from_piexif w p =
          (case decode_or_str w (ifd_get exif ''0th'' 0x0132) of
             Inl _ \<Rightarrow> Inr None
           | Inr raw \<Rightarrow> format_exif_raw (strftime_pads_year w) (PyStr raw))"
    by (auto simp: get_date_from_piexif_def piexif_body_def bind_res_def
        ExifIFD_DateTimeOriginal_def ImageIFD_DateTime_def tot split: sum.splits)
  have d: "pillow_getexif w p = Inr (Some dict) \<longrightarrow>
        get_date_from_pillow w p =
          (case probed_value dict of
             None \<Rightarrow> Inr None
           | Some v \<Rightarrow> format_exif_raw (strftime_pads_year w) v)"
    by (simp add: get_date_from_pillow_probed)
  from a b c d show ?thesis by blast
qed

theorem get_date_string_tier_priority_witness:
  "get_date_from_piexif camera_world ''a.jpg'' = Inr (Some ''2022-07-04'')
   \<and> get_date_from_pillow camera_world ''a.jpg'' = Inr (Some ''2020-05-05'')
   \<and> mtime_tier camera_world ''a.jpg'' = Inr (Some ''2023-11-14'')
   \<and> get_date_string camera_world ''a.jpg'' = Inr (Some ''2022-07-04'')
   \<and> HAVE_PIEXIF camera_world
   \<and> piexif_load camera_world ''a.jpg''
       = Inr (piexif_dict [(36867, PyBytes ''2022:07:04 10:00:00'')]
                [(306, PyBytes ''2021:01:01 00:00:00'')])
   \<and> py_truthy (ifd_get (piexif_dict [(36867, PyBytes ''2022:07:04 10:00:00'')]
                [(306, PyBytes ''2021:01:01 00:00:00'')]) ''Exif'' 0x9003)
   \<and> HAVE_PIEXIF edited_world
   \<and> piexif_load edited_world ''a.jpg''
       = Inr (piexif_dict [] [(306, PyBytes ''2021:01:01 00:00:00'')])
   \<and> \<not> py_truthy (ifd_get (piexif_dict [] [(306, PyBytes ''2021:01:01 00:00:00'')]) ''Exif'' 0x9003)
   \<and> py_truthy (ifd_get (piexif_dict [] [(306, PyBytes ''2021:01:01 00:00:00'')]) ''0th'' 0x0132)
   \<and> get_date_from_piexif edited_world ''a.jpg'' = Inr (Some ''2021-01-01'')
   \<and> pillow_getexif camera_world ''a.jpg''
       = Inr (Some [(306, PyStr ''2020:05:05 09:00:00''), (36868, PyStr ''2019:03:03 08:00:00'')])
   \<and> probed_value [(306, PyStr ''2020:05:05 09:00:00''), (36868, PyStr ''2019:03:03 08:00:00'')]
       = Some (PyStr ''2020:05:05 09:00:00'')"
proof -
  have 1: "get_date_from_piexif camera_world ''a.jpg'' = Inr (Some ''2022-07-04'')"
    by (simp add: camera_world_def world_eval string_eval date_eval)
  have 2: "get_date_from_pillow camera_world ''a.jpg'' = Inr (Some ''2020-05-05'')"
    by (simp add: camera_world_def world_eval string_eval date_eval)
  have 3: "mtime_tier camera_world ''a.jpg'' = Inr (Some ''2023-11-14'')"
    by (simp add: camera_world_def world_eval time_eval date_eval)
  have 4: "get_date_from_piexif edited_world ''a.jpg'' = Inr (Some ''2021-01-01'')"
    by (simp add: edited_world_def world_eval string_eval date_eval)
  have 5: "probed_value [(306, PyStr ''2020:05:05 09:00:00''), (36868, PyStr ''2019:03:03 08:00:00'')]
       = Some (PyStr ''2020:05:05 09:00:00'')"
    by (simp add: probed_value_def present_value_def)
  have 6: "HAVE_PIEXIF camera_world" "HAVE_PIEXIF edited_world"
    "piexif_load camera_world ''a.jpg''
       = Inr (piexif_dict [(36867, PyBytes ''2022:07:04 10:00:00'')]
                [(306, PyBytes ''2021:01:01 00:00:00'')])"
    "piexif_load edited_world ''a.jpg''
       = Inr (piexif_dict [] [(306, PyBytes ''2021:01:01 00:00:00'')])"
    "pillow_getexif camera_world ''a.jpg''
       = Inr (Some [(306, PyStr ''2020:05:05 09:00:00''), (36868, PyStr ''2019:03:03 08:00:00'')])"
    by (simp_all add: camera_world_def edited_world_def example_world_def)
  have 7: "py_truthy (ifd_get (piexif_dict [(36867, PyBytes ''2022:07:04 10:00:00'')]
                [(306, PyBytes ''2021:01:01 00:00:00'')]) ''Exif'' 0x9003)"
    "\<not> py_truthy (ifd_get (piexif_dict [] [(306, PyBytes ''2021:01:01 00:00:00'')]) ''Exif'' 0x9003)"
    "py_truthy (ifd_get (piexif_dict [] [(306, PyBytes ''2021:01:01 00:00:00'')]) ''0th'' 0x0132)"
    by (simp_all add: ifd_get_def piexif_dict_def)
  show ?thesis
    using get_date_string_tier_priority [of camera_world "''a.jpg''" "''2022-07-04''"
        "piexif_dict [(36867, PyBytes ''2022:07:04 10:00:00'')]
           [(306, PyBytes ''2021:01:01 00:00:00'')]"
        "[(306, PyStr ''2020:05:05 09:00:00''), (36868, PyStr ''2019:03:03 08:00:00'')]"]
      get_date_string_tier_priority [of edited_world "''a.jpg''" "''2021-01-01''"
        "piexif_dict [] [(306, PyBytes ''2021:01:01 00:00:00'')]"]
    by (simp add: 1 2 3 4 5 6 7)
qed

text \<open>
  C8 (as stated, refuted). A file without metadata whose modification time is
  10000-01-01 00:00:00 UTC is accessible, \<^verbatim>\<open>os.path.getmtime\<close> returns, and the result
  is \<^verbatim>\<open>None\<close>: \<^verbatim>\<open>datetime.fromtimestamp\<close> raises \<^verbatim>\<open>ValueError\<close> for a year
  beyond 9999, inside the same \<^verbatim>\<open>try\<close>.
\<close>

theorem get_date_string_far_future:
  "getmtime far_future_world ''a.png'' = Inr 253402300800
   \<and> get_date_from_piexif far_future_world ''a.png'' = Inr None
   \<and> get_date_from_pillow far_future_world ''a.png'' = Inr None
   \<and> get_date_string far_future_world ''a.png'' = Inr None"
  by (simp add: far_future_world_def world_eval time_eval bind_res_def)

text \<open>
  C8 (amended). \<^verbatim>\<open>get_date_string\<close> and its file-system tier never raise. When neither
  metadata backend yields a date: if the file is accessible and its modification time
  converts to a local date, of a year from 1000 on or on a runtime that zero fills the
  year, the result is that date in the canonical form; if the conversion raises, or if
  the file is inaccessible, the result is \<^verbatim>\<open>None\<close>.
\<close>

theorem get_date_string_mtime_fallback:
  "(\<exists>r. get_date_string w p = Inr r) \<and> (\<exists>r. mtime_tier w p = Inr r)
   \<and> (get_date_from_piexif w p = Inr None \<and> get_date_from_pillow w p = Inr None
        \<and> getmtime w p = Inr t \<and> fromtimestamp w t = Inr (y, m, d)
        \<and> (strftime_pads_year w \<or> 1000 \<le> y) \<longrightarrow>
        get_date_string w p = Inr (Some (canonical_date (y, m, d))))
   \<and> (get_date_from_piexif w p = Inr None \<and> get_date_from_pillow w p = Inr None
        \<and> getmtime w p = Inr t \<and> isl (fromtimestamp w t) \<longrightarrow>
        get_date_string w p = Inr None)
   \<and> (get_date_from_piexif w p = Inr None \<and> get_date_from_pillow w p = Inr None
        \<and> isl (getmtime w p) \<longrightarrow>
        get_date_string w p = Inr None)"
proof -
  have a: "get_date_from_piexif w p = Inr None \<and> get_date_from_pillow w p = Inr None
        \<and> getmtime w p = Inr t \<and> fromtimestamp w t = Inr (y, m, d)
        \<and> (strftime_pads_year w \<or> 1000 \<le> y) \<longrightarrow>
        get_date_string w p = Inr (Some (canonical_date (y, m, d)))"
    using strftime_ymd_canonical [of "strftime_pads_year w" y m d]
    by (auto simp: get_date_string_def mtime_tier_def mtime_body_def bind_res_def
        date_truthy_def)
  have b: "get_date_from_piexif w p = Inr None \<and> get_date_from_pillow w p = Inr None
        \<and> getmtime w p = Inr t \<and> isl (fromtimestamp w t) \<longrightarrow>
        get_date_string w p = Inr None"
    by (auto simp: get_date_string_def mtime_tier_def mtime_body_def bind_res_def
        date_truthy_def isl_def)
  have c: "get_date_from_piexif w p = Inr None \<and> get_date_from_pillow w p = Inr None
        \<and> isl (getmtime w p) \<longrightarrow>
        get_date_string w p = Inr None"
    by (auto simp: get_date_string_def mtime_tier_def mtime_body_def bind_res_def
        date_truthy_def isl_def)
  from a b c get_date_string_total [of w p] mtime_tier_total [of w p]
  show ?thesis by blast
qed

theorem get_date_string_mtime_fallback_witness:
  "get_date_from_piexif plain_world ''a.png'' = Inr None
   \<and> get_date_from_pillow plain_world ''a.png'' = Inr None
   \<and> getmtime plain_world ''a.png'' = Inr 1700000000
   \<and> fromtimestamp plain_world 1700000000 = Inr (2023, 11, 14)
   \<and> (1000::int) \<le> 2023
   \<and> canonical_date (2023, 11, 14) = ''2023-11-14''
   \<and> get_date_string plain_world ''a.png'' = Inr (Some ''2023-11-14'')
   \<and> get_date_from_piexif far_future_world ''a.png'' = Inr None
   \<and> get_date_from_pillow far_future_world ''a.png'' = Inr None
   \<and> getmtime far_future_world ''a.png'' = Inr 253402300800
   \<and> isl (fromtimestamp far_future_world 253402300800)
   \<and> get_date_string far_future_world ''a.png'' = Inr None
   \<and> get_date_from_piexif missing_world ''a.png'' = Inr None
   \<and> get_date_from_pillow missing_world ''a.png'' = Inr None
   \<and> isl (getmtime missing_world ''a.png'')
   \<and> get_date_string missing_world ''a.png'' = Inr None"
proof -
  have 1: "get_date_from_piexif plain_world ''a.png'' = Inr None"
    "get_date_from_pillow plain_world ''a.png'' = Inr None"
    "get_date_from_piexif far_future_world ''a.png'' = Inr None"
    "get_date_from_pillow far_future_world ''a.png'' = Inr None"
    "get_date_from_piexif missing_world ''a.png'' = Inr None"
    "get_date_from_pillow missing_world ''a.png'' = Inr None"
    by (simp_all add: plain_world_def far_future_world_def missing_world_def world_eval
        bind_res_def)
  have 2: "getmtime plain_world ''a.png'' = Inr 1700000000"
    "getmtime far_future_world ''a.png'' = Inr 253402300800"
    "isl (getmtime missing_world ''a.png'')"
    by (simp_all add: plain_world_def far_future_world_def missing_world_def example_world_def)
  have 3: "fromtimestamp plain_world 1700000000 = Inr (2023, 11, 14)"
    "isl (fromtimestamp far_future_world 253402300800)"
    by (simp_all add: plain_world_def far_future_world_def example_world_def time_eval)
  have 4: "canonical_date (2023, 11, 14) = ''2023-11-14''"
    by (simp add: canonical_date_def zero_pad_def digit_char_def dec_digits.simps)
  show ?thesis
    using get_date_string_mtime_fallback [of plain_world "''a.png''" 1700000000 2023 11 14]
      get_date_string_mtime_fallback [of far_future_world "''a.png''" 253402300800]
      get_date_string_mtime_fallback [of missing_world "''a.png''"]
    by (simp add: 1 2 3 4)
qed

section \<open>Results about \<^verbatim>\<open>calc_pos\<close>\<close>

text \<open>
  C4 (as stated, refuted at the centre anchor). The claim says the centre anchor divides
  with truncation toward zero. The source divides with \<^verbatim>\<open>//\<close>, which rounds toward
  minus infinity. For a 10 x 50 image and a 13 x 11 text the source gives x = -2, where
  truncation of -3 / 2 gives -1.
\<close>

theorem calc_pos_center_not_truncating:
  "calc_pos ''center'' (10, 50) (13, 11) default_margin
     \<noteq> ((10 - 13) sdiv 2, (50 - 11) sdiv 2)"
  by (simp add: calc_pos_def signed_divide_int_def)

text \<open>
  C4 (amended). With margin \<open>m\<close>: top-left is \<open>(m, m)\<close>; top-right is
  \<open>(iw - tw - m, m)\<close>; bottom-left is \<open>(m, ih - th - m)\<close>; center is
  \<open>((iw - tw) div 2, (ih - th) div 2)\<close> with floor division, which agrees with
  truncation toward zero whenever the text is no larger than the image; every other
  anchor name gives the bottom-right result \<open>(iw - tw - m, ih - th - m)\<close>. With the
  default margin 10, center of a 20 x 10 text in a 100 x 50 image is (40, 20), top-right
  is (70, 10) and the name "unknown-anchor" gives (70, 30).
\<close>

theorem calc_pos_anchors:
  "calc_pos ''top-left'' (iw, ih) (tw, th) m = (m, m)
   \<and> calc_pos ''top-right'' (iw, ih) (tw, th) m = (iw - tw - m, m)
   \<and> calc_pos ''bottom-left'' (iw, ih) (tw, th) m = (m, ih - th - m)
   \<and> calc_pos ''center'' (iw, ih) (tw, th) m = ((iw - tw) div 2, (ih - th) div 2)
   \<and> (tw \<le> iw \<and> th \<le> ih \<longrightarrow>
        calc_pos ''center'' (iw, ih) (tw, th) m = ((iw - tw) sdiv 2, (ih - th) sdiv 2))
   \<and> (name \<notin> {''top-left'', ''top-right'', ''bottom-left'', ''center''} \<longrightarrow>
        calc_pos name (iw, ih) (tw, th) m = (iw - tw - m, ih - th - m))
   \<and> calc_pos ''center'' (100, 50) (20, 10) default_margin = (40, 20)
   \<and> calc_pos ''top-right'' (100, 50) (20, 10) default_margin = (70, 10)
   \<and> calc_pos ''unknown-anchor'' (100, 50) (20, 10) default_margin = (70, 30)"
  by (simp add: calc_pos_def default_margin_def signed_divide_int_def sgn_if)

theorem calc_pos_anchors_witness:
  "(20::int) \<le> 100 \<and> (10::int) \<le> 50
   \<and> calc_pos ''center'' (100, 50) (20, 10) 10 = ((100 - 20) sdiv 2, (50 - 10) sdiv 2)
   \<and> ''bottom-right'' \<notin> {''top-left'', ''top-right'', ''bottom-left'', ''center''}
   \<and> calc_pos ''bottom-right'' (100, 50) (20, 10) 10 = (100 - 20 - 10, 50 - 10 - 10)"
  using calc_pos_anchors [of 100 50 20 10 10 "''bottom-right''"]
  by (simp add: default_margin_def)

section \<open>Results about \<^verbatim>\<open>parse_color\<close>\<close>

lemmas color_eval =
  parse_color_def startswith_def py_slice_def color_names_def py_lower_def lower_char_def
  char_of_def bit_Suc_0_iff bind_res_def

lemma is_hex_facts:
  assumes "is_hex c"
  shows "\<exists>v. digit_value c = Some v \<and> v < 16 \<and> int v = hex_value c"
    and "\<not> is_space c" and "\<not> int_space c"
    and "c \<noteq> CHR ''_''" and "c \<noteq> CHR ''+''" and "c \<noteq> CHR ''-''"
    and "c \<noteq> CHR ''x''" and "c \<noteq> CHR ''X''" and "c \<noteq> CHR ''#''"
  using assms
  by (auto simp: is_hex_def digit_value_def code_of_def is_space_def int_space_def
      hex_value_def)

lemma py_int_hex_pair:
  assumes "is_hex a" and "is_hex b"
  shows "py_int 16 [a, b] = Inr (16 * hex_value a + hex_value b)"
proof -
  obtain va where va: "digit_value a = Some va" "va < 16" "int va = hex_value a"
    using is_hex_facts(1) [OF assms(1)] by blast
  obtain vb where vb: "digit_value b = Some vb" "vb < 16" "int vb = hex_value b"
    using is_hex_facts(1) [OF assms(2)] by blast
  note fa = is_hex_facts(2-) [OF assms(1)]
  note fb = is_hex_facts(2-) [OF assms(2)]
  have 1: "dropWhile int_space [a, b] = [a, b]" using fa by simp
  have 2: "skip_sign [a, b] = (1, [a, b])" using fa by (simp add: skip_sign_def)
  have 3: "skip_prefix 16 [a, b] = [a, b]" using fb by (simp add: skip_prefix_def)
  have 4: "scan_digits 16 (CHR 0x00) [a, b] = Some ([va, vb], [])"
    using fa fb va vb by simp
  show ?thesis
    using fa va(3) vb(3)
    by (simp add: py_int_def 1 2 3 4 del: scan_digits.simps)
qed

text \<open>
  Recognized colours. A string of "#" and six hexadecimal digits gives the three byte
  values; a string that is not seven characters long after stripping, or does not start
  with "#", never raises and gives the entry of the name table for its lower-case form,
  white when there is none.
\<close>

lemma parse_color_hex:
  assumes "is_hex r1" "is_hex r2" "is_hex g1" "is_hex g2" "is_hex b1" "is_hex b2"
  shows "parse_color (Some [CHR ''#'', r1, r2, g1, g2, b1, b2]) =
     Inr (16 * hex_value r1 + hex_value r2, 16 * hex_value g1 + hex_value g2,
          16 * hex_value b1 + hex_value b2)"
proof -
  have "py_strip [CHR ''#'', r1, r2, g1, g2, b1, b2] = [CHR ''#'', r1, r2, g1, g2, b1, b2]"
    using is_hex_facts(2) [OF assms(6)]
    by (simp add: py_strip_def is_space_def code_of_def)
  then show ?thesis
    using assms
    by (simp add: parse_color_def startswith_def py_slice_def bind_res_def py_int_hex_pair)
qed

lemma parse_color_names:
  assumes "\<not> (startswith (py_strip s) ''#'' \<and> length (py_strip s) = 7)"
  shows "parse_color (Some s) =
     Inr (case map_of color_names (py_lower (py_strip s)) of
            None \<Rightarrow> (255, 255, 255)
          | Some c \<Rightarrow> c)"
  using assms by (auto simp: parse_color_def Let_def)

lemma parse_color_examples:
  "parse_color (Some ''#FF0000'') = Inr (255, 0, 0)"
  "parse_color (Some ''Blue'') = Inr (0, 0, 255)"
  "parse_color (Some ''mauve'') = Inr (255, 255, 255)"
  "parse_color (Some ''GREEN'') = Inr (0, 128, 0)"
  "parse_color None = Inr (255, 255, 255)"
  by (simp_all add: color_eval string_eval)

text \<open>
  C5 (the defect). For "#GGGGGG", seven characters that start with "#",
  \<^verbatim>\<open>int("GG", 16)\<close> raises \<^verbatim>\<open>ValueError\<close> and \<^verbatim>\<open>parse_color\<close> raises it: the
  unrecognized colour does not give white.
\<close>

theorem parse_color_bad_hex_raises:
  "\<not> is_hex (CHR ''G'')
   \<and> py_int 16 ''GG'' = Inl ValueError
   \<and> parse_color (Some ''#GGGGGG'') = Inl ValueError"
  by (simp add: color_eval string_eval is_hex_def)

theorem parse_color_bad_hex_raises_witness:
  "startswith (py_strip ''#GGGGGG'') ''#'' \<and> length (py_strip ''#GGGGGG'') = 7
   \<and> parse_color (Some ''#GGGGGG'') \<noteq> Inr (255, 255, 255)"
  using parse_color_bad_hex_raises
  by (simp add: startswith_def py_strip_def is_space_def code_of_def)

section \<open>Results about \<^verbatim>\<open>_measure_text\<close>\<close>

text \<open>
  C6. \<^verbatim>\<open>_measure_text\<close> never raises, whatever the three measurement calls do: it
  always returns an extent. A tier that raises falls through to the next one: the
  bounding box is used when \<^verbatim>\<open>textbbox\<close> returns, else \<^verbatim>\<open>font.getsize\<close> when it
  returns, else \<^verbatim>\<open>draw.textsize\<close> when it returns; when all three raise the result is
  (8 * len(text), 16).
\<close>

theorem measure_text_never_raises:
  "(\<exists>ext. measure_text draw text font = Inr ext)
   \<and> (textbbox draw font text = Inr (l, t, r, b) \<longrightarrow>
        measure_text draw text font = Inr (r - l, b - t))
   \<and> (isl (textbbox draw font text) \<and> getsize font text = Inr sz \<longrightarrow>
        measure_text draw text font = Inr sz)
   \<and> (isl (textbbox draw font text) \<and> isl (getsize font text)
        \<and> textsize draw font text = Inr sz \<longrightarrow>
        measure_text draw text font = Inr sz)
   \<and> (isl (textbbox draw font text) \<and> isl (getsize font text)
        \<and> isl (textsize draw font text) \<longrightarrow>
        measure_text draw text font = Inr (8 * int (length text), 16))"
  by (auto simp: measure_text_def split: sum.splits prod.splits)

theorem measure_text_never_raises_witness:
  "textbbox bbox_draw broken_font ''2022-07-04'' = Inr (0, 2, 60, 13)
   \<and> measure_text bbox_draw ''2022-07-04'' broken_font = Inr (60, 11)
   \<and> isl (textbbox broken_draw getsize_font ''2022-07-04'')
   \<and> getsize getsize_font ''2022-07-04'' = Inr (60, 11)
   \<and> measure_text broken_draw ''2022-07-04'' getsize_font = Inr (60, 11)
   \<and> isl (textbbox textsize_draw broken_font ''2022-07-04'')
   \<and> isl (getsize broken_font ''2022-07-04'')
   \<and> textsize textsize_draw broken_font ''2022-07-04'' = Inr (70, 12)
   \<and> measure_text textsize_draw ''2022-07-04'' broken_font = Inr (70, 12)
   \<and> isl (textsize broken_draw broken_font ''2022-07-04'')
   \<and> measure_text broken_draw ''2022-07-04'' broken_font = Inr (80, 16)"
  using measure_text_never_raises [of bbox_draw "''2022-07-04''" broken_font 0 2 60 13]
    measure_text_never_raises [of broken_draw "''2022-07-04''" getsize_font _ _ _ _ "(60, 11)"]
    measure_text_never_raises [of textsize_draw "''2022-07-04''" broken_font _ _ _ _ "(70, 12)"]
    measure_text_never_raises [of broken_draw "''2022-07-04''" broken_font]
  by (simp add: bbox_draw_def broken_font_def broken_draw_def getsize_font_def
      textsize_draw_def)

section \<open>Lemmas about rounding to binary64\<close>

lemma pow2_powi: "pow2 k = 2 powi k"
  by (simp add: pow2_def power_int_def power_one_over inverse_eq_divide)

lemma pow2_pos: "0 < pow2 k"
  by (simp add: pow2_def)

lemma pow2_add: "pow2 (a + b) = pow2 a * pow2 b"
  by (simp add: pow2_powi power_int_add)

lemma pow2_nat: "pow2 (int n) = 2 ^ n"
  by (simp add: pow2_def)

lemma pow2_neg_nat: "pow2 (- int n) = 1 / 2 ^ n"
  by (cases n) (simp_all add: pow2_def nat_add_distrib)

lemma pow2_mono: "a \<le> b \<Longrightarrow> pow2 a \<le> pow2 b"
  by (simp add: pow2_powi power_int_increasing)

lemma pow2_strict_mono: "a < b \<Longrightarrow> pow2 a < pow2 b"
  by (simp add: pow2_powi power_int_strict_increasing)

lemma pow2_less_cancel: "pow2 a < pow2 b \<Longrightarrow> a < b"
  using pow2_mono [of b a] by (cases "a < b") auto

lemma ilog2_bounds: "0 < n \<Longrightarrow> 2 ^ ilog2 n \<le> n \<and> n < 2 ^ Suc (ilog2 n)"
proof (induction n rule: ilog2.induct)
  case (1 n)
  show ?case
  proof (cases "n < 2")
    case True
    with "1.prems" have "n = 1" by simp
    then show ?thesis by (simp add: ilog2.simps)
  next
    case False
    then have "0 < n div 2" by simp
    with "1.IH" False
    have ih: "2 ^ ilog2 (n div 2) \<le> n div 2" "n div 2 < 2 ^ Suc (ilog2 (n div 2))"
      by simp_all
    have e: "ilog2 n = Suc (ilog2 (n div 2))"
      using False by (subst ilog2.simps) simp
    have "2 * 2 ^ ilog2 (n div 2) \<le> n" using ih(1) by simp
    moreover have "n < 2 * 2 ^ Suc (ilog2 (n div 2))" using ih(2) by simp
    ultimately show ?thesis by (simp add: e)
  qed
qed

lemma binary_exponent_bounds:
  assumes "0 < a"
  shows "pow2 (binary_exponent a) \<le> a" and "a < pow2 (binary_exponent a + 1)"
proof -
  obtain n d where q: "quotient_of a = (n, d)" by (cases "quotient_of a") auto
  then have d: "0 < d" and a: "a = of_int n / of_int d"
    using quotient_of_denom_pos quotient_of_div by auto
  have n: "0 < n"
    using assms a d by (simp add: zero_less_divide_iff)
  define ln ld where "ln = ilog2 (nat n)" and "ld = ilog2 (nat d)"
  have bn: "2 ^ ln \<le> nat n" "nat n < 2 ^ Suc ln"
    using ilog2_bounds [of "nat n"] n by (simp_all add: ln_def)
  have bd: "2 ^ ld \<le> nat d" "nat d < 2 ^ Suc ld"
    using ilog2_bounds [of "nat d"] d by (simp_all add: ld_def)
  have rn: "(2::rat) ^ ln \<le> of_int n" "of_int n < (2::rat) ^ Suc ln"
  proof -
    have "int (2 ^ ln) \<le> n" "n < int (2 ^ Suc ln)" using bn n by linarith+
    then have "(of_int (int (2 ^ ln)) :: rat) \<le> of_int n"
      "(of_int n :: rat) < of_int (int (2 ^ Suc ln))"
      by (simp_all only: of_int_le_iff of_int_less_iff)
    then show "(2::rat) ^ ln \<le> of_int n" "of_int n < (2::rat) ^ Suc ln" by simp_all
  qed
  have rd: "(2::rat) ^ ld \<le> of_int d" "of_int d < (2::rat) ^ Suc ld"
  proof -
    have "int (2 ^ ld) \<le> d" "d < int (2 ^ Suc ld)" using bd d by linarith+
    then have "(of_int (int (2 ^ ld)) :: rat) \<le> of_int d"
      "(of_int d :: rat) < of_int (int (2 ^ Suc ld))"
      by (simp_all only: of_int_le_iff of_int_less_iff)
    then show "(2::rat) ^ ld \<le> of_int d" "of_int d < (2::rat) ^ Suc ld" by simp_all
  qed
  define e0 where "e0 = int ln - int ld"
  have up: "a < pow2 (e0 + 1)"
  proof -
    have "a < 2 ^ Suc ln / 2 ^ ld"
      unfolding a using rn(2) rd(1) n d
      by (intro frac_less) simp_all
    also have "\<dots> = pow2 (int (Suc ln)) * pow2 (- int ld)"
      by (simp only: pow2_nat pow2_neg_nat) simp
    also have "\<dots> = pow2 (int (Suc ln) + - int ld)"
      by (simp only: pow2_add)
    also have "int (Suc ln) + - int ld = e0 + 1"
      by (simp add: e0_def)
    finally show ?thesis .
  qed
  have low: "pow2 (e0 - 1) \<le> a"
  proof -
    have "e0 - 1 = int ln + - int (Suc ld)"
      by (simp add: e0_def)
    then have "pow2 (e0 - 1) = pow2 (int ln) * pow2 (- int (Suc ld))"
      by (simp only: pow2_add)
    also have "\<dots> = 2 ^ ln / 2 ^ Suc ld"
      by (simp only: pow2_nat pow2_neg_nat) simp
    also have "\<dots> \<le> a"
      unfolding a using rn(1) rd(2) n d
      by (intro frac_le) simp_all
    finally show ?thesis .
  qed
  have be: "binary_exponent a = (if pow2 e0 \<le> a then e0 else e0 - 1)"
    by (simp add: binary_exponent_def q e0_def ln_def ld_def)
  show "pow2 (binary_exponent a) \<le> a"
    using low by (simp add: be)
  show "a < pow2 (binary_exponent a + 1)"
    using up by (auto simp: be)
qed

lemma round_half_even_bounds:
  shows "x - 1 / 2 \<le> of_int (round_half_even x)"
    and "of_int (round_half_even x) \<le> x + 1 / 2"
  by (simp_all add: round_half_even_def Let_def; linarith)+

lemma round_half_even_of_int [simp]: "round_half_even (of_int k) = k"
  by (simp add: round_half_even_def)

lemma round_half_even_ge:
  assumes "of_int k \<le> x"
  shows "k \<le> round_half_even x"
proof -
  have "(of_int k :: rat) - 1 / 2 \<le> of_int (round_half_even x)"
    using assms round_half_even_bounds(1) [of x] by linarith
  then have "(of_int k :: rat) < of_int (round_half_even x) + 1" by linarith
  then have "(of_int k :: rat) < of_int (round_half_even x + 1)" by simp
  then have "k < round_half_even x + 1" by (simp only: of_int_less_iff)
  then show ?thesis by simp
qed

lemma round_to_double_overflow:
  assumes "pow2 1024 \<le> x"
  shows "round_to_double x = PosInf"
proof -
  have x: "0 < x" using assms pow2_pos [of 1024] by linarith
  define e where "e = binary_exponent x"
  have "pow2 1024 < pow2 (e + 1)"
    using assms binary_exponent_bounds(2) [OF x] by (simp add: e_def)
  then have e: "1024 \<le> e" using pow2_less_cancel [of 1024 "e + 1"] by simp
  define q where "q = e - 52"
  have q: "max (e - 52) (- 1074) = q" using e by (simp add: q_def)
  have k: "(of_int (2 ^ 52) :: rat) = pow2 52" by (simp add: pow2_def)
  have "52 + q = e" by (simp add: q_def)
  then have eq: "pow2 52 * pow2 q = pow2 e" by (simp only: pow2_add [symmetric])
  have "pow2 52 * pow2 q \<le> x"
    using binary_exponent_bounds(1) [OF x] by (simp only: eq e_def)
  then have "pow2 52 \<le> x / pow2 q"
    using pow2_pos [of q] by (simp only: pos_le_divide_eq)
  then have "of_int (2 ^ 52) \<le> x / pow2 q" by (simp only: k)
  then have "2 ^ 52 \<le> round_half_even (x / pow2 q)"
    by (rule round_half_even_ge)
  then have "(of_int (2 ^ 52) :: rat) \<le> of_int (round_half_even (x / pow2 q))"
    by (simp only: of_int_le_iff)
  then have m: "pow2 52 \<le> of_int (round_half_even (x / pow2 q))" by (simp only: k)
  have "pow2 1024 \<le> pow2 e" using e by (rule pow2_mono)
  also have "\<dots> = pow2 52 * pow2 q" by (simp only: eq)
  also have "\<dots> \<le> of_int (round_half_even (x / pow2 q)) * pow2 q"
    using m pow2_pos [of q] by (intro mult_right_mono) simp_all
  finally have "pow2 1024 \<le> of_int (round_half_even (x / pow2 q)) * pow2 q" .
  then show ?thesis
    using x q by (simp add: round_to_double_def Let_def e_def [symmetric])
qed

lemma round_to_double_small:
  assumes "0 < x" and "x < 2 ^ 53"
  shows "\<exists>p. round_to_double x = Finite p \<and> 0 \<le> p \<and> \<bar>p - x\<bar> \<le> 1 / 2"
proof -
  define e where "e = binary_exponent x"
  have "pow2 e < pow2 53"
    using assms(2) binary_exponent_bounds(1) [OF assms(1)] by (simp add: e_def pow2_def)
  then have e: "e < 53" by (rule pow2_less_cancel)
  define q where "q = max (e - 52) (- 1074)"
  have q: "q \<le> 0" using e by (simp add: q_def)
  then have q1: "pow2 q \<le> 1" using pow2_mono [of q 0] by (simp add: pow2_def)
  define m where "m = round_half_even (x / pow2 q)"
  define p where "p = of_int m * pow2 q"
  have "0 \<le> x / pow2 q" using assms(1) pow2_pos [of q] by simp
  then have "0 \<le> m" using round_half_even_ge [of 0 "x / pow2 q"] by (simp add: m_def)
  then have p0: "0 \<le> p" using pow2_pos [of q] by (simp add: p_def)
  have "of_int m - x / pow2 q \<le> 1 / 2" and "- (1 / 2) \<le> of_int m - x / pow2 q"
    using round_half_even_bounds(1) [of "x / pow2 q"] round_half_even_bounds(2) [of "x / pow2 q"]
    unfolding m_def by linarith+
  then have "\<bar>of_int m - x / pow2 q\<bar> \<le> 1 / 2"
    by linarith
  then have "\<bar>of_int m - x / pow2 q\<bar> * pow2 q \<le> 1 / 2 * pow2 q"
    using pow2_pos [of q] by (intro mult_right_mono) simp_all
  moreover have "\<bar>of_int m - x / pow2 q\<bar> * pow2 q = \<bar>p - x\<bar>"
  proof -
    have "\<bar>of_int m - x / pow2 q\<bar> * pow2 q = \<bar>(of_int m - x / pow2 q) * pow2 q\<bar>"
      using pow2_pos [of q] by (simp add: abs_mult)
    also have "(of_int m - x / pow2 q) * pow2 q = p - x"
      using pow2_pos [of q] by (simp add: p_def left_diff_distrib)
    finally show ?thesis .
  qed
  ultimately have near: "\<bar>p - x\<bar> \<le> 1 / 2" using q1 by linarith
  have "p < 2 ^ 53 + 1" using near assms(2) by linarith
  also have "\<dots> < pow2 1024" by (simp add: pow2_def)
  finally have fin: "\<not> pow2 1024 \<le> p" by simp
  have "round_to_double x = Finite p"
    using assms(1) fin
    by (simp add: round_to_double_def Let_def e_def [symmetric] q_def [symmetric]
        m_def [symmetric] p_def [symmetric])
  then show ?thesis using p0 near by blast
qed

lemma round_to_double_int:
  assumes "0 \<le> w" and "w < 2 ^ 53"
  shows "round_to_double (of_int w) = Finite (of_int w)"
proof (cases "w = 0")
  case True
  then show ?thesis by (simp add: round_to_double_def)
next
  case False
  then have x: "(0::rat) < of_int w" using assms(1) by simp
  have x53: "(of_int w :: rat) < 2 ^ 53"
  proof -
    have "(of_int w :: rat) < of_int (2 ^ 53)" using assms(2) by (simp only: of_int_less_iff)
    then show ?thesis by simp
  qed
  define e where "e = binary_exponent (of_int w)"
  have "pow2 e < pow2 53"
    using x53 binary_exponent_bounds(1) [OF x] by (simp add: e_def pow2_def)
  then have e: "e < 53" by (rule pow2_less_cancel)
  define q where "q = max (e - 52) (- 1074)"
  have q: "q \<le> 0" using e by (simp add: q_def)
  have inv: "1 / pow2 q = of_int (2 ^ nat (- q))"
    using q by (simp add: pow2_def)
  have "of_int w / pow2 q = of_int w * (1 / pow2 q)" by simp
  also have "\<dots> = of_int (w * 2 ^ nat (- q))" by (simp only: inv of_int_mult)
  finally have "round_half_even (of_int w / pow2 q) = w * 2 ^ nat (- q)"
    by (simp only: round_half_even_of_int)
  then have v: "of_int (round_half_even (of_int w / pow2 q)) * pow2 q = of_int w"
    using q by (simp add: pow2_def)
  have "(of_int w :: rat) < pow2 1024" using x53 by (simp add: pow2_def)
  then show ?thesis
    using x v
    by (simp add: round_to_double_def Let_def e_def [symmetric] q_def [symmetric])
qed

section \<open>Results about \<^verbatim>\<open>compute_font_px\<close>\<close>

lemma py_float_examples:
  "py_float ''0.5'' = Inr (Finite (1 / 2))"
  "py_float ''20'' = Inr (Finite 20)"
  "py_float ''abc'' = Inl ValueError"
  "py_float ''inf'' = Inr PosInf"
  by code_simp+

lemma py_float_1e309: "py_float ''1e309'' = Inr PosInf"
proof -
  have d: "is_ascii_digit (CHR ''0'')" "is_ascii_digit (CHR ''1'')" "is_ascii_digit (CHR ''3'')"
    "is_ascii_digit (CHR ''9'')" "\<not> is_ascii_digit (CHR ''e'')"
    by (simp_all add: is_ascii_digit_def code_of_def)
  have e: "parse_exponent ''e309'' = Some 309"
    by (simp add: parse_exponent_def skip_sign_def d digits_nat_def code_of_def)
  have p: "parse_decimal ''1e309'' = Some (pow10 309)"
    by (simp add: parse_decimal_def d e digits_nat_def code_of_def)
  have "pow2 1024 \<le> pow10 309"
    by (simp add: pow2_def pow10_def)
  then have o: "round_to_double (pow10 309) = PosInf"
    by (rule round_to_double_overflow)
  have s: "\<not> int_space (CHR ''1'')" "\<not> int_space (CHR ''9'')"
    by (simp_all add: int_space_def code_of_def)
  show ?thesis
    by (simp add: py_float_def d s skip_sign_def py_lower_def lower_char_def code_of_def p o)
qed

lemma compute_font_px_total: "\<exists>n. compute_font_px spec w = Inr n"
  by (simp add: compute_font_px_def split: sum.splits option.splits)

lemma compute_font_px_ge_1:
  assumes "py_float spec = Inr (Finite v)" and "1 \<le> v"
  shows "compute_font_px spec w = Inr \<lfloor>v\<rfloor>"
  using assms
  by (simp add: compute_font_px_def font_px_body_def bind_res_def float_ge_def
      int_of_float_def py_trunc_def)

lemma compute_font_px_fraction:
  assumes "py_float spec = Inr (Finite v)" and "0 < v" and "v < 1"
    and "0 \<le> w" and "w < 2 ^ 53"
  shows "\<exists>p. round_to_double (of_int w * v) = Finite p \<and> \<bar>p - of_int w * v\<bar> \<le> 1 / 2
           \<and> compute_font_px spec w = Inr (max 12 \<lfloor>p\<rfloor>)"
proof -
  have fw: "float_of_int w = Inr (Finite (of_int w))"
    using round_to_double_int [OF assms(4,5)] by (simp add: float_of_int_def)
  obtain p where p: "round_to_double (of_int w * v) = Finite p" "0 \<le> p"
    "\<bar>p - of_int w * v\<bar> \<le> 1 / 2"
  proof (cases "w = 0")
    case True
    then have "round_to_double (of_int w * v) = Finite 0"
      by (simp add: round_to_double_def)
    then show ?thesis using that [of 0] True by simp
  next
    case False
    then have w: "(0::rat) < of_int w" using assms(4) by simp
    have "(of_int w :: rat) < of_int (2 ^ 53)"
      using assms(5) by (simp only: of_int_less_iff)
    then have w53: "(of_int w :: rat) < 2 ^ 53" by simp
    have "of_int w * v < of_int w * 1"
      using w assms(3) by (intro mult_strict_left_mono)
    then have "of_int w * v < 2 ^ 53" using w53 by simp
    moreover have "0 < of_int w * v" using w assms(2) by simp
    ultimately show ?thesis
      using round_to_double_small [of "of_int w * v"] that by blast
  qed
  have "compute_font_px spec w = Inr (max 12 \<lfloor>p\<rfloor>)"
    using assms(1-3) fw p(1,2)
    by (simp add: compute_font_px_def font_px_body_def bind_res_def float_ge_def
        float_gt_def float_lt_def float_mul_def int_of_float_def py_trunc_def)
  then show ?thesis using p by blast
qed

lemma compute_font_px_otherwise:
  assumes "isl (py_float spec) \<or> py_float spec = Inr PosInf \<or> py_float spec = Inr NegInf
           \<or> py_float spec = Inr NaN \<or> (\<exists>v. py_float spec = Inr (Finite v) \<and> v \<le> 0)"
  shows "compute_font_px spec w = Inr 36"
  using assms
  by (auto simp: compute_font_px_def font_px_body_def bind_res_def float_ge_def
      float_gt_def float_lt_def int_of_float_def isl_def)

text \<open>
  C7 (as stated, refuted). The specification "1e309" parses, to a float that is at least
  1 (positive infinity, as the decimal number is beyond the largest binary64 number),
  and the result is 36, not that number as an integer: \<^verbatim>\<open>int(val)\<close> raises
  \<^verbatim>\<open>OverflowError\<close>, which the \<^verbatim>\<open>except\<close> clause absorbs.
\<close>

theorem compute_font_px_infinite:
  "py_float ''1e309'' = Inr PosInf \<and> float_ge PosInf 1
   \<and> compute_font_px ''1e309'' 100 = Inr 36"
  using compute_font_px_otherwise [of "''1e309''" 100]
  by (simp add: py_float_1e309 float_ge_def)

text \<open>
  C7 (amended). \<^verbatim>\<open>compute_font_px\<close> never raises. If the specification parses as a
  finite number of at least 1, the result is that number truncated to an integer. If it
  parses as a number strictly between 0 and 1 and the image width is below \<open>2 ^ 53\<close>,
  the result is the floating-point product of width and number, truncated, but at least
  12. If it does not parse, or parses as an infinity, as NaN or as a number that is not
  positive, the result is 36. So "0.5" at width 100 gives 50, "abc" gives 36 and "20"
  gives 20.
\<close>

theorem compute_font_px_rule:
  "(\<exists>n. compute_font_px spec w = Inr n)
   \<and> (py_float spec = Inr (Finite v) \<and> 1 \<le> v \<longrightarrow> compute_font_px spec w = Inr \<lfloor>v\<rfloor>)
   \<and> (py_float spec = Inr (Finite v) \<and> 0 < v \<and> v < 1 \<and> 0 \<le> w \<and> w < 2 ^ 53 \<longrightarrow>
        (\<exists>p. round_to_double (of_int w * v) = Finite p \<and> \<bar>p - of_int w * v\<bar> \<le> 1 / 2
              \<and> compute_font_px spec w = Inr (max 12 \<lfloor>p\<rfloor>)))
   \<and> (isl (py_float spec) \<or> py_float spec = Inr PosInf \<or> py_float spec = Inr NegInf
        \<or> py_float spec = Inr NaN \<or> (py_float spec = Inr (Finite v) \<and> v \<le> 0) \<longrightarrow>
        compute_font_px spec w = Inr 36)
   \<and> compute_font_px ''0.5'' 100 = Inr 50
   \<and> compute_font_px ''abc'' w = Inr 36
   \<and> compute_font_px ''20'' w = Inr 20"
proof -
  have a: "py_float spec = Inr (Finite v) \<and> 1 \<le> v \<longrightarrow> compute_font_px spec w = Inr \<lfloor>v\<rfloor>"
    using compute_font_px_ge_1 by blast
  have b: "py_float spec = Inr (Finite v) \<and> 0 < v \<and> v < 1 \<and> 0 \<le> w \<and> w < 2 ^ 53 \<longrightarrow>
        (\<exists>p. round_to_double (of_int w * v) = Finite p \<and> \<bar>p - of_int w * v\<bar> \<le> 1 / 2
              \<and> compute_font_px spec w = Inr (max 12 \<lfloor>p\<rfloor>))"
    using compute_font_px_fraction by blast
  have c: "isl (py_float spec) \<or> py_float spec = Inr PosInf \<or> py_float spec = Inr NegInf
        \<or> py_float spec = Inr NaN \<or> (py_float spec = Inr (Finite v) \<and> v \<le> 0) \<longrightarrow>
        compute_font_px spec w = Inr 36"
    using compute_font_px_otherwise [of spec w] by blast
  have m: "float_of_int 100 = Inr (Finite 100)"
    "float_mul (Finite 100) (Finite (1 / 2)) = Finite 50"
    by code_simp+
  have d: "compute_font_px ''0.5'' 100 = Inr 50"
    by (simp add: compute_font_px_def font_px_body_def bind_res_def py_float_examples
        float_ge_def float_gt_def float_lt_def m int_of_float_def py_trunc_def)
  have e: "compute_font_px ''abc'' w = Inr 36"
    using compute_font_px_otherwise [of "''abc''" w] by (simp add: py_float_examples)
  have f: "compute_font_px ''20'' w = Inr 20"
    using compute_font_px_ge_1 [of "''20''" 20 w] by (simp add: py_float_examples)
  from compute_font_px_total [of spec w] a b c d e f show ?thesis by blast
qed

theorem compute_font_px_rule_witness:
  "py_float ''20'' = Inr (Finite 20) \<and> (1::rat) \<le> 20
   \<and> compute_font_px ''20'' 640 = Inr \<lfloor>20::rat\<rfloor>
   \<and> py_float ''0.5'' = Inr (Finite (1 / 2)) \<and> (0::rat) < 1 / 2 \<and> (1 / 2 :: rat) < 1
   \<and> (0::int) \<le> 100 \<and> (100::int) < 2 ^ 53
   \<and> (\<exists>p. round_to_double (of_int 100 * (1 / 2)) = Finite p
            \<and> \<bar>p - of_int 100 * (1 / 2)\<bar> \<le> 1 / 2
            \<and> compute_font_px ''0.5'' 100 = Inr (max 12 \<lfloor>p\<rfloor>))
   \<and> isl (py_float ''abc'')
   \<and> compute_font_px ''abc'' 640 = Inr 36
   \<and> py_float ''inf'' = Inr PosInf
   \<and> compute_font_px ''inf'' 640 = Inr 36"
  using compute_font_px_rule [of "''20''" 640 20]
    compute_font_px_rule [of "''0.5''" 100 "1 / 2"]
    compute_font_px_rule [of "''abc''" 640]
    compute_font_px_rule [of "''inf''" 640]
  by (simp add: py_float_examples)

section \<open>Results about \<^verbatim>\<open>process_image\<close>\<close>

lemmas io_defs = io_bind_def io_call_def io_effect_def io_return_def io_with_exit_def

lemma io_bind_Inr_iff:
  "io_bind m f evs = (Inr r, evs') \<longleftrightarrow> (\<exists>x e1. m evs = (Inr x, e1) \<and> f x e1 = (Inr r, evs'))"
  by (auto simp: io_bind_def split: prod.splits sum.splits)

lemma io_call_Inr_iff: "io_call c evs = (Inr x, evs') \<longleftrightarrow> c = Inr x \<and> evs' = evs"
  by (auto simp: io_call_def)

lemma io_effect_Inr_iff:
  "io_effect ev c evs = (Inr x, evs') \<longleftrightarrow> c = Inr x \<and> evs' = evs @ [ev]"
  by (auto simp: io_effect_def split: sum.splits)

lemma io_return_Inr_iff: "io_return x evs = (Inr r, evs') \<longleftrightarrow> r = x \<and> evs' = evs"
  by (auto simp: io_return_def)

lemma io_with_exit_Inr_iff:
  "io_with_exit ev ex body evs = (Inr r, evs') \<longleftrightarrow>
     (\<exists>e1. body evs = (Inr r, e1) \<and> ex = Inr () \<and> evs' = e1 @ [ev])"
  by (auto simp: io_with_exit_def split: prod.splits sum.splits)

lemmas io_Inr_iffs =
  io_bind_Inr_iff io_call_Inr_iff io_effect_Inr_iff io_return_Inr_iff io_with_exit_Inr_iff

lemma draw_outline_log:
  "draw_outline draw (x, y) text font offs evs = (Inr r, evs') \<Longrightarrow>
   evs' = evs @ map (\<lambda>(dx, dy). Draw_text (x + dx, y + dy) text (0, 0, 0)) offs"
proof (induction offs arbitrary: evs)
  case Nil
  then show ?case by (simp add: io_defs)
next
  case (Cons off offs)
  obtain dx dy where off: "off = (dx, dy)" by (cases off)
  from Cons.prems have
    "draw_outline draw (x, y) text font offs (evs @ [Draw_text (x + dx, y + dy) text (0, 0, 0)])
       = (Inr r, evs')"
    by (auto simp: off io_defs split: sum.splits)
  from Cons.IH [OF this] show ?case by (simp add: off)
qed

lemma save_image_log:
  "save_image env im ext out_path evs = (Inr r, evs') \<Longrightarrow>
   \<exists>q. evs' = evs @ [Save_image out_path q]"
  by (auto simp: save_image_def io_defs split: if_splits sum.splits)

lemma draw_outline_log_pair:
  "draw_outline draw xy text font offs evs = (Inr r, evs') \<Longrightarrow>
   evs' = evs @ map (\<lambda>(dx, dy). Draw_text (fst xy + dx, snd xy + dy) text (0, 0, 0)) offs"
  using draw_outline_log [of draw "fst xy" "snd xy" "text" font offs evs r evs'] by simp

lemma with_body_success_pair:
  assumes "with_body env im0 d path out_dir font_path font_spec color_str pos_name evs
             = (Inr r, evs')"
  shows "r = True \<and>
    (\<exists>xy fill out_path q.
       evs' = evs @
             [Draw_text (fst xy - 1, snd xy - 1) d (0, 0, 0),
              Draw_text (fst xy - 1, snd xy + 1) d (0, 0, 0),
              Draw_text (fst xy + 1, snd xy - 1) d (0, 0, 0),
              Draw_text (fst xy + 1, snd xy + 1) d (0, 0, 0),
              Draw_text xy d fill, Make_dirs out_dir,
              Save_image out_path q, Print (Msg_saved out_path)])"
  using assms
  by (auto simp: with_body_def case_prod_beta io_Inr_iffs
      dest!: draw_outline_log_pair save_image_log)

text \<open>
  When the body of the \<^verbatim>\<open>with\<close> block returns, it returns \<^verbatim>\<open>True\<close>, and what it did is:
  draw the four outline texts, draw the date, create the directory, save the file, print
  the message.
\<close>

lemma with_body_success:
  assumes "with_body env im0 d path out_dir font_path font_spec color_str pos_name evs
             = (Inr r, evs')"
  shows "r = True \<and>
    (\<exists>x y fill out_path q.
       evs' = evs @
             [Draw_text (x - 1, y - 1) d (0, 0, 0), Draw_text (x - 1, y + 1) d (0, 0, 0),
              Draw_text (x + 1, y - 1) d (0, 0, 0), Draw_text (x + 1, y + 1) d (0, 0, 0),
              Draw_text (x, y) d fill, Make_dirs out_dir,
              Save_image out_path q, Print (Msg_saved out_path)])"
proof -
  from with_body_success_pair [OF assms] obtain xy fill out_path q where
    r: "r = True" and
    e: "evs' = evs @
             [Draw_text (fst xy - 1, snd xy - 1) d (0, 0, 0),
              Draw_text (fst xy - 1, snd xy + 1) d (0, 0, 0),
              Draw_text (fst xy + 1, snd xy - 1) d (0, 0, 0),
              Draw_text (fst xy + 1, snd xy + 1) d (0, 0, 0),
              Draw_text xy d fill, Make_dirs out_dir,
              Save_image out_path q, Print (Msg_saved out_path)]"
    by blast
  have "evs' = evs @
             [Draw_text (fst xy - 1, snd xy - 1) d (0, 0, 0),
              Draw_text (fst xy - 1, snd xy + 1) d (0, 0, 0),
              Draw_text (fst xy + 1, snd xy - 1) d (0, 0, 0),
              Draw_text (fst xy + 1, snd xy + 1) d (0, 0, 0),
              Draw_text (fst xy, snd xy) d fill, Make_dirs out_dir,
              Save_image out_path q, Print (Msg_saved out_path)]"
    using e by simp
  then show ?thesis using r by blast
qed

text \<open>
  When the body of the outer \<^verbatim>\<open>try\<close> returns, it returns \<^verbatim>\<open>True\<close>, and it has opened the
  image, done all of the above and closed the image.
\<close>

lemma render_body_success:
  assumes "render_body env d path out_dir font_path font_spec color_str pos_name evs
             = (Inr r, evs')"
  shows "r = True \<and>
    (\<exists>x y fill out_path q.
       evs' = evs @
             [Open_image path,
              Draw_text (x - 1, y - 1) d (0, 0, 0), Draw_text (x - 1, y + 1) d (0, 0, 0),
              Draw_text (x + 1, y - 1) d (0, 0, 0), Draw_text (x + 1, y + 1) d (0, 0, 0),
              Draw_text (x, y) d fill, Make_dirs out_dir,
              Save_image out_path q, Print (Msg_saved out_path), Close_image path])"
proof -
  from assms obtain im0 e1 where
    b: "with_body env im0 d path out_dir font_path font_spec color_str pos_name
          (evs @ [Open_image path]) = (Inr r, e1)"
    and e: "evs' = e1 @ [Close_image path]"
    by (auto simp: render_body_def io_Inr_iffs)
  from with_body_success [OF b] obtain x y fill out_path q where
    r: "r = True" and
    e1: "e1 = (evs @ [Open_image path]) @
             [Draw_text (x - 1, y - 1) d (0, 0, 0), Draw_text (x - 1, y + 1) d (0, 0, 0),
              Draw_text (x + 1, y - 1) d (0, 0, 0), Draw_text (x + 1, y + 1) d (0, 0, 0),
              Draw_text (x, y) d fill, Make_dirs out_dir,
              Save_image out_path q, Print (Msg_saved out_path)]"
    by blast
  have "evs' = evs @
             [Open_image path,
              Draw_text (x - 1, y - 1) d (0, 0, 0), Draw_text (x - 1, y + 1) d (0, 0, 0),
              Draw_text (x + 1, y - 1) d (0, 0, 0), Draw_text (x + 1, y + 1) d (0, 0, 0),
              Draw_text (x, y) d fill, Make_dirs out_dir,
              Save_image out_path q, Print (Msg_saved out_path), Close_image path]"
    using e e1 by simp
  then show ?thesis using r by blast
qed

lemma date_events_subset:
  "set (date_events w env path) \<subseteq> {Open_image path, Close_image path}"
  by (auto simp: date_events_def pillow_read_def io_defs split: sum.splits if_splits prod.splits)

lemma process_image_skip:
  assumes "get_date_string (runtime_of w env) path = Inr date" and "\<not> date_truthy date"
  shows "process_image w env path out_dir font_path font_spec color_str pos_name =
    (case print_msg env (Msg_skip path) of
       Inl e \<Rightarrow> (Inl e, date_events w env path)
     | Inr _ \<Rightarrow> (Inr False, date_events w env path @ [Print (Msg_skip path)]))"
  using assms by (simp add: process_image_def io_defs split: sum.splits)

lemma process_image_caught:
  assumes "get_date_string (runtime_of w env) path = Inr (Some d)" and "d \<noteq> []"
    and "render_body env d path out_dir font_path font_spec color_str pos_name
           (date_events w env path) = (Inl e, evs)"
  shows "process_image w env path out_dir font_path font_spec color_str pos_name =
    (case print_msg env (Msg_error path e) of
       Inl e' \<Rightarrow> (Inl e', evs)
     | Inr _ \<Rightarrow> (Inr False, evs @ [Print (Msg_error path e)]))"
  using assms by (simp add: process_image_def date_truthy_def io_defs split: sum.splits)

lemma process_image_done:
  assumes "get_date_string (runtime_of w env) path = Inr (Some d)" and "d \<noteq> []"
    and "render_body env d path out_dir font_path font_spec color_str pos_name
           (date_events w env path) = (Inr r, evs)"
  shows "process_image w env path out_dir font_path font_spec color_str pos_name = (Inr True, evs)"
  using assms render_body_success [OF assms(3)]
  by (simp add: process_image_def date_truthy_def)

lemma parse_color_white: "parse_color (Some ''white'') = Inr (255, 255, 255)"
  by (simp add: color_eval string_eval)

lemma py_lower_jpg: "py_lower ''.jpg'' = ''.jpg''"
  by (simp add: py_lower_def lower_char_def code_of_def)

lemma compute_font_px_20: "compute_font_px ''20'' w = Inr 20"
  using compute_font_px_ge_1 [of "''20''" 20 w] by (simp add: py_float_examples)

lemmas imaging_eval =
  render_body_def with_body_def io_defs good_imaging_def full_disk_imaging_def
  failing_draw_imaging_def ascii_console_def unreadable_imaging_def load_font_def
  measure_text_def bbox_draw_def getsize_font_def calc_pos_def default_margin_def
  save_image_def posix_splitext_def compute_font_px_20 parse_color_white py_lower_jpg Let_def

lemma pillow_read_examples:
  "pillow_read good_imaging p [] = (Inr None, [Open_image p, Close_image p])"
  "pillow_read full_disk_imaging p [] = (Inr None, [Open_image p, Close_image p])"
  "pillow_read failing_draw_imaging p [] = (Inr None, [Open_image p, Close_image p])"
  "pillow_read (ascii_console full_disk_imaging) p [] = (Inr None, [Open_image p, Close_image p])"
  "pillow_read unreadable_imaging p [] = (Inl OSError, [])"
  "pillow_read (ascii_console unreadable_imaging) p [] = (Inl OSError, [])"
  by (simp_all add: pillow_read_def io_defs good_imaging_def full_disk_imaging_def
      failing_draw_imaging_def ascii_console_def unreadable_imaging_def)

lemma example_date_events:
  "date_events (example_world True [] [] None m) env p = snd (pillow_read env p [])"
  by (simp add: date_events_def world_eval bind_res_def)

lemma runtime_dates:
  assumes "fst (pillow_read env p []) = Inr None \<or> fst (pillow_read env p []) = Inl e"
  shows "get_date_string (runtime_of plain_world env) p = Inr (Some ''2023-11-14'')"
    and "get_date_string (runtime_of far_future_world env) p = Inr None"
    and "get_date_string (runtime_of missing_world env) p = Inr None"
  using assms
  by (auto simp: runtime_of_def plain_world_def far_future_world_def missing_world_def
      world_eval time_eval bind_res_def date_eval)

text \<open>
  C9 (as stated, refuted). Three runs, each contradicting one part of the claim.

  First, a file without metadata whose modification time is beyond year 9999: the date
  chain is exhausted and the image is skipped, but it has been opened, by the Pillow
  tier of the chain, which reads the metadata through \<^verbatim>\<open>Image.open\<close>.

  Second, a resolved date and an image that opens, converts and could be saved, but
  \<^verbatim>\<open>draw.text\<close> raises: the outermost \<^verbatim>\<open>except\<close> catches it and the result is \<^verbatim>\<open>False\<close>,
  which is neither an exhausted date chain nor an error of opening, decoding or saving.

  Third, a save that fails on a console that cannot print the error message: the error
  of the save is caught, the \<^verbatim>\<open>print\<close> inside the handler raises, and that exception
  reaches the caller.
\<close>

theorem process_image_other_outcomes:
  "get_date_string (runtime_of far_future_world good_imaging) ''/p/a.png'' = Inr None
   \<and> process_image far_future_world good_imaging ''/p/a.png'' ''/p/p_watermark'' [] ''20''
       ''white'' ''bottom-right''
     = (Inr False,
        [Open_image ''/p/a.png'', Close_image ''/p/a.png'', Print (Msg_skip ''/p/a.png'')])
   \<and> get_date_string (runtime_of plain_world failing_draw_imaging) ''/p/a.png''
     = Inr (Some ''2023-11-14'')
   \<and> process_image plain_world failing_draw_imaging ''/p/a.png'' ''/p/p_watermark'' [] ''20''
       ''white'' ''bottom-right''
     = (Inr False,
        [Open_image ''/p/a.png'', Close_image ''/p/a.png'',
         Open_image ''/p/a.png'', Close_image ''/p/a.png'',
         Print (Msg_error ''/p/a.png'' (OtherException ''MemoryError''))])
   \<and> process_image plain_world (ascii_console full_disk_imaging) ''/p/a.png''
       ''/p/p_watermark'' [] ''20'' ''white'' ''bottom-right''
     = (Inl (OtherException ''UnicodeEncodeError''),
        [Open_image ''/p/a.png'', Close_image ''/p/a.png'',
         Open_image ''/p/a.png'',
         Draw_text (529, 378) ''2023-11-14'' (0, 0, 0),
         Draw_text (529, 380) ''2023-11-14'' (0, 0, 0),
         Draw_text (531, 378) ''2023-11-14'' (0, 0, 0),
         Draw_text (531, 380) ''2023-11-14'' (0, 0, 0),
         Draw_text (530, 379) ''2023-11-14'' (255, 255, 255),
         Make_dirs ''/p/p_watermark'',
         Close_image ''/p/a.png''])"
proof -
  let ?p = "''/p/a.png''"
  have 1: "get_date_string (runtime_of far_future_world good_imaging) ?p = Inr None"
    by (rule runtime_dates(2) [of _ _ OSError]) (simp add: pillow_read_examples)
  have 2: "get_date_string (runtime_of plain_world failing_draw_imaging) ?p
     = Inr (Some ''2023-11-14'')"
    by (rule runtime_dates(1) [of _ _ OSError]) (simp add: pillow_read_examples)
  have 3: "get_date_string (runtime_of plain_world (ascii_console full_disk_imaging)) ?p
     = Inr (Some ''2023-11-14'')"
    by (rule runtime_dates(1) [of _ _ OSError]) (simp add: pillow_read_examples)
  have e: "date_events far_future_world good_imaging ?p = [Open_image ?p, Close_image ?p]"
    "date_events plain_world failing_draw_imaging ?p = [Open_image ?p, Close_image ?p]"
    "date_events plain_world (ascii_console full_disk_imaging) ?p
       = [Open_image ?p, Close_image ?p]"
    by (simp_all add: far_future_world_def plain_world_def example_date_events
        pillow_read_examples)
  have p: "print_msg good_imaging (Msg_skip ?p) = Inr ()"
    "print_msg failing_draw_imaging (Msg_error ?p (OtherException ''MemoryError'')) = Inr ()"
    "print_msg (ascii_console full_disk_imaging) (Msg_error ?p OSError)
       = Inl (OtherException ''UnicodeEncodeError'')"
    by (simp_all add: good_imaging_def failing_draw_imaging_def ascii_console_def)
  have rb: "render_body failing_draw_imaging ''2023-11-14'' ?p ''/p/p_watermark'' [] ''20''
       ''white'' ''bottom-right'' [Open_image ?p, Close_image ?p]
     = (Inl (OtherException ''MemoryError''),
        [Open_image ?p, Close_image ?p, Open_image ?p, Close_image ?p])"
    by (simp add: imaging_eval)
  have rc: "render_body (ascii_console full_disk_imaging) ''2023-11-14'' ?p ''/p/p_watermark''
       [] ''20'' ''white'' ''bottom-right'' [Open_image ?p, Close_image ?p]
     = (Inl OSError,
        [Open_image ?p, Close_image ?p,
         Open_image ?p,
         Draw_text (529, 378) ''2023-11-14'' (0, 0, 0),
         Draw_text (529, 380) ''2023-11-14'' (0, 0, 0),
         Draw_text (531, 378) ''2023-11-14'' (0, 0, 0),
         Draw_text (531, 380) ''2023-11-14'' (0, 0, 0),
         Draw_text (530, 379) ''2023-11-14'' (255, 255, 255),
         Make_dirs ''/p/p_watermark'',
         Close_image ?p])"
    by (simp add: imaging_eval)
  have a: "process_image far_future_world good_imaging ?p ''/p/p_watermark'' [] ''20''
       ''white'' ''bottom-right''
     = (Inr False, [Open_image ?p, Close_image ?p, Print (Msg_skip ?p)])"
    using process_image_skip [OF 1, of "''/p/p_watermark''" "[]" "''20''" "''white''"
        "''bottom-right''"]
    by (simp add: date_truthy_def e p)
  have b: "process_image plain_world failing_draw_imaging ?p ''/p/p_watermark'' [] ''20''
       ''white'' ''bottom-right''
     = (Inr False,
        [Open_image ?p, Close_image ?p, Open_image ?p, Close_image ?p,
         Print (Msg_error ?p (OtherException ''MemoryError''))])"
  proof -
    have "render_body failing_draw_imaging ''2023-11-14'' ?p ''/p/p_watermark'' [] ''20''
       ''white'' ''bottom-right'' (date_events plain_world failing_draw_imaging ?p)
     = (Inl (OtherException ''MemoryError''),
        [Open_image ?p, Close_image ?p, Open_image ?p, Close_image ?p])"
      unfolding e(2) by (rule rb)
    from process_image_caught [OF 2 _ this] show ?thesis by (simp add: p)
  qed
  have c: "process_image plain_world (ascii_console full_disk_imaging) ?p
       ''/p/p_watermark'' [] ''20'' ''white'' ''bottom-right''
     = (Inl (OtherException ''UnicodeEncodeError''),
        [Open_image ?p, Close_image ?p,
         Open_image ?p,
         Draw_text (529, 378) ''2023-11-14'' (0, 0, 0),
         Draw_text (529, 380) ''2023-11-14'' (0, 0, 0),
         Draw_text (531, 378) ''2023-11-14'' (0, 0, 0),
         Draw_text (531, 380) ''2023-11-14'' (0, 0, 0),
         Draw_text (530, 379) ''2023-11-14'' (255, 255, 255),
         Make_dirs ''/p/p_watermark'',
         Close_image ?p])"
  proof -
    have "render_body (ascii_console full_disk_imaging) ''2023-11-14'' ?p ''/p/p_watermark''
       [] ''20'' ''white'' ''bottom-right''
       (date_events plain_world (ascii_console full_disk_imaging) ?p)
     = (Inl OSError,
        [Open_image ?p, Close_image ?p,
         Open_image ?p,
         Draw_text (529, 378) ''2023-11-14'' (0, 0, 0),
         Draw_text (529, 380) ''2023-11-14'' (0, 0, 0),
         Draw_text (531, 378) ''2023-11-14'' (0, 0, 0),
         Draw_text (531, 380) ''2023-11-14'' (0, 0, 0),
         Draw_text (530, 379) ''2023-11-14'' (255, 255, 255),
         Make_dirs ''/p/p_watermark'',
         Close_image ?p])"
      unfolding e(3) by (rule rc)
    from process_image_caught [OF 3 _ this] show ?thesis by (simp add: p)
  qed
  from 1 2 a b c show ?thesis by simp
qed

text \<open>
  C9 (amended). The date chain itself draws and saves nothing: all it does to the image
  is that its Pillow tier may open and close it. \<^verbatim>\<open>process_image\<close> returns \<^verbatim>\<open>False\<close> in
  exactly two circumstances: when the date chain is exhausted, and then the image is
  skipped with the skip message, nothing being drawn or saved, and when an exception
  raised anywhere inside the outer \<^verbatim>\<open>try\<close> block is caught at the outermost boundary,
  and then the error message is printed; both provided that the message can be
  printed. It returns \<^verbatim>\<open>True\<close> only after it has opened the image, drawn the outline and
  the date, created the directory, saved the file, printed the saved message and closed
  the image. In neither failure case does the caught exception reach the caller: the
  only exception that reaches the caller is that of printing the skip message or the
  error message.
\<close>

theorem process_image_result:
  "set (date_events w env path) \<subseteq> {Open_image path, Close_image path}
   \<and> (get_date_string (runtime_of w env) path = Inr date \<and> \<not> date_truthy date
        \<and> print_msg env (Msg_skip path) = Inr ()
        \<longrightarrow>
        process_image w env path out_dir font_path font_spec color_str pos_name
          = (Inr False, date_events w env path @ [Print (Msg_skip path)]))
   \<and> (get_date_string (runtime_of w env) path = Inr (Some d) \<and> d \<noteq> []
        \<and> render_body env d path out_dir font_path font_spec color_str pos_name
              (date_events w env path) = (Inl e, evs)
        \<and> print_msg env (Msg_error path e) = Inr ()
        \<longrightarrow>
        process_image w env path out_dir font_path font_spec color_str pos_name
          = (Inr False, evs @ [Print (Msg_error path e)]))
   \<and> (fst (process_image w env path out_dir font_path font_spec color_str pos_name) = Inr True
        \<longrightarrow>
        (\<exists>d x y fill out_path q.
           get_date_string (runtime_of w env) path = Inr (Some d) \<and> d \<noteq> [] \<and>
           snd (process_image w env path out_dir font_path font_spec color_str pos_name)
             = date_events w env path @
               [Open_image path,
                Draw_text (x - 1, y - 1) d (0, 0, 0), Draw_text (x - 1, y + 1) d (0, 0, 0),
                Draw_text (x + 1, y - 1) d (0, 0, 0), Draw_text (x + 1, y + 1) d (0, 0, 0),
                Draw_text (x, y) d fill, Make_dirs out_dir,
                Save_image out_path q, Print (Msg_saved out_path), Close_image path]))
   \<and> (fst (process_image w env path out_dir font_path font_spec color_str pos_name) = Inr False
        \<longleftrightarrow>
        (\<exists>date. get_date_string (runtime_of w env) path = Inr date \<and> \<not> date_truthy date
              \<and> print_msg env (Msg_skip path) = Inr ())
        \<or> (\<exists>d e evs. get_date_string (runtime_of w env) path = Inr (Some d) \<and> d \<noteq> []
              \<and> render_body env d path out_dir font_path font_spec color_str pos_name
                    (date_events w env path) = (Inl e, evs)
              \<and> print_msg env (Msg_error path e) = Inr ()))
   \<and> (fst (process_image w env path out_dir font_path font_spec color_str pos_name) = Inl e'
        \<longleftrightarrow>
        (\<exists>date. get_date_string (runtime_of w env) path = Inr date \<and> \<not> date_truthy date
              \<and> print_msg env (Msg_skip path) = Inl e')
        \<or> (\<exists>d e evs. get_date_string (runtime_of w env) path = Inr (Some d) \<and> d \<noteq> []
              \<and> render_body env d path out_dir font_path font_spec color_str pos_name
                    (date_events w env path) = (Inl e, evs)
              \<and> print_msg env (Msg_error path e) = Inl e'))"
proof -
  let ?p = "process_image w env path out_dir font_path font_spec color_str pos_name"
  let ?g = "get_date_string (runtime_of w env) path"
  let ?ev = "date_events w env path"
  let ?r = "\<lambda>d. render_body env d path out_dir font_path font_spec color_str pos_name ?ev"
  let ?log = "\<lambda>d x y fill out_path q. ?ev @
               [Open_image path,
                Draw_text (x - 1, y - 1) d (0, 0, 0), Draw_text (x - 1, y + 1) d (0, 0, 0),
                Draw_text (x + 1, y - 1) d (0, 0, 0), Draw_text (x + 1, y + 1) d (0, 0, 0),
                Draw_text (x, y) d fill, Make_dirs out_dir,
                Save_image out_path q, Print (Msg_saved out_path), Close_image path]"
  obtain dt where dt: "?g = Inr dt"
    using get_date_string_total by blast
  have z: "set ?ev \<subseteq> {Open_image path, Close_image path}"
    by (rule date_events_subset)
  have skip: "?p = (case print_msg env (Msg_skip path) of
       Inl e \<Rightarrow> (Inl e, ?ev) | Inr _ \<Rightarrow> (Inr False, ?ev @ [Print (Msg_skip path)]))"
    if "\<not> date_truthy dt"
    using process_image_skip [OF dt that] .
  have bad: "?p = (case print_msg env (Msg_error path e0) of
       Inl e1 \<Rightarrow> (Inl e1, evs0) | Inr _ \<Rightarrow> (Inr False, evs0 @ [Print (Msg_error path e0)]))"
    if "dt = Some d0" "d0 \<noteq> []" "?r d0 = (Inl e0, evs0)" for d0 e0 evs0
    using process_image_caught [OF _ that(2) that(3)] dt that(1) by simp
  have ok: "?p = (Inr True, evs0)"
    if "dt = Some d0" "d0 \<noteq> []" "?r d0 = (Inr r0, evs0)" for d0 r0 evs0
    using process_image_done [OF _ that(2) that(3)] dt that(1) by simp
  have a: "?g = Inr date \<and> \<not> date_truthy date \<and> print_msg env (Msg_skip path) = Inr ()
        \<longrightarrow> ?p = (Inr False, ?ev @ [Print (Msg_skip path)])"
    using skip dt by auto
  have b: "?g = Inr (Some d) \<and> d \<noteq> [] \<and> ?r d = (Inl e, evs)
        \<and> print_msg env (Msg_error path e) = Inr ()
        \<longrightarrow> ?p = (Inr False, evs @ [Print (Msg_error path e)])"
    using bad dt by auto
  have c: "fst ?p = Inr True \<longrightarrow>
        (\<exists>d x y fill out_path q. ?g = Inr (Some d) \<and> d \<noteq> [] \<and>
           snd ?p = ?log d x y fill out_path q)"
  proof
    assume t: "fst ?p = Inr True"
    have tr: "date_truthy dt"
    proof (rule ccontr)
      assume "\<not> date_truthy dt"
      from skip [OF this] t show False by (simp split: sum.splits)
    qed
    then obtain d0 where d0: "dt = Some d0" "d0 \<noteq> []"
      by (auto simp: date_truthy_def split: option.splits)
    obtain res evs0 where r: "?r d0 = (res, evs0)" by (cases "?r d0")
    show "\<exists>d x y fill out_path q. ?g = Inr (Some d) \<and> d \<noteq> [] \<and>
           snd ?p = ?log d x y fill out_path q"
    proof (cases res)
      case (Inl e0)
      with bad [OF d0, of e0 evs0] r t show ?thesis by (simp split: sum.splits)
    next
      case (Inr r0)
      with r have r': "?r d0 = (Inr r0, evs0)" by simp
      from ok [OF d0 r'] have p: "snd ?p = evs0" by simp
      from render_body_success [OF r'] obtain x y fill out_path q where
        "evs0 = ?log d0 x y fill out_path q" by blast
      with p dt d0 show ?thesis by blast
    qed
  qed
  have split3: "(\<not> date_truthy dt) \<or>
      (\<exists>d0 e0 evs0. dt = Some d0 \<and> d0 \<noteq> [] \<and> ?r d0 = (Inl e0, evs0)) \<or>
      (\<exists>d0 r0 evs0. dt = Some d0 \<and> d0 \<noteq> [] \<and> ?r d0 = (Inr r0, evs0))"
  proof (cases "date_truthy dt")
    case False
    then show ?thesis by simp
  next
    case True
    then obtain d0 where d0: "dt = Some d0" "d0 \<noteq> []"
      by (auto simp: date_truthy_def split: option.splits)
    obtain res evs0 where r: "?r d0 = (res, evs0)" by (cases "?r d0")
    show ?thesis using d0 r by (cases res) auto
  qed
  have d: "fst ?p = Inr False \<longleftrightarrow>
        (\<exists>date. ?g = Inr date \<and> \<not> date_truthy date \<and> print_msg env (Msg_skip path) = Inr ())
        \<or> (\<exists>d e evs. ?g = Inr (Some d) \<and> d \<noteq> [] \<and> ?r d = (Inl e, evs)
              \<and> print_msg env (Msg_error path e) = Inr ())"
    using split3
  proof (elim disjE exE conjE)
    assume f: "\<not> date_truthy dt"
    then have n: "\<not> (dt = Some d1 \<and> d1 \<noteq> [])" for d1
      by (auto simp: date_truthy_def)
    show ?thesis using skip [OF f] dt f n by (auto split: sum.splits)
  next
    fix d0 e0 evs0
    assume h: "dt = Some d0" "d0 \<noteq> []" "?r d0 = (Inl e0, evs0)"
    then have tr: "date_truthy dt" by (simp add: date_truthy_def)
    show ?thesis using bad [OF h] dt h tr by (auto split: sum.splits)
  next
    fix d0 r0 evs0
    assume h: "dt = Some d0" "d0 \<noteq> []" "?r d0 = (Inr r0, evs0)"
    then have tr: "date_truthy dt" by (simp add: date_truthy_def)
    show ?thesis using ok [OF h] dt h tr by auto
  qed
  have e: "fst ?p = Inl e' \<longleftrightarrow>
        (\<exists>date. ?g = Inr date \<and> \<not> date_truthy date \<and> print_msg env (Msg_skip path) = Inl e')
        \<or> (\<exists>d e evs. ?g = Inr (Some d) \<and> d \<noteq> [] \<and> ?r d = (Inl e, evs)
              \<and> print_msg env (Msg_error path e) = Inl e')"
    using split3
  proof (elim disjE exE conjE)
    assume f: "\<not> date_truthy dt"
    then have n: "\<not> (dt = Some d1 \<and> d1 \<noteq> [])" for d1
      by (auto simp: date_truthy_def)
    show ?thesis using skip [OF f] dt f n by (auto split: sum.splits)
  next
    fix d0 e0 evs0
    assume h: "dt = Some d0" "d0 \<noteq> []" "?r d0 = (Inl e0, evs0)"
    then have tr: "date_truthy dt" by (simp add: date_truthy_def)
    show ?thesis using bad [OF h] dt h tr by (auto split: sum.splits)
  next
    fix d0 r0 evs0
    assume h: "dt = Some d0" "d0 \<noteq> []" "?r d0 = (Inr r0, evs0)"
    then have tr: "date_truthy dt" by (simp add: date_truthy_def)
    show ?thesis using ok [OF h] dt h tr by auto
  qed
  from z a b c d e show ?thesis by blast
qed

theorem process_image_result_witness:
  "get_date_string (runtime_of missing_world unreadable_imaging) ''/p/a.jpg'' = Inr None
   \<and> \<not> date_truthy None
   \<and> print_msg unreadable_imaging (Msg_skip ''/p/a.jpg'') = Inr ()
   \<and> process_image missing_world unreadable_imaging ''/p/a.jpg'' ''/p/p_watermark'' [] ''20''
         ''white'' ''bottom-right''
       = (Inr False, [Print (Msg_skip ''/p/a.jpg'')])
   \<and> get_date_string (runtime_of plain_world full_disk_imaging) ''/p/a.jpg''
       = Inr (Some ''2023-11-14'')
   \<and> ''2023-11-14'' \<noteq> []
   \<and> render_body full_disk_imaging ''2023-11-14'' ''/p/a.jpg'' ''/p/p_watermark'' [] ''20''
         ''white'' ''bottom-right'' (date_events plain_world full_disk_imaging ''/p/a.jpg'')
       = (Inl OSError,
          [Open_image ''/p/a.jpg'', Close_image ''/p/a.jpg'',
           Open_image ''/p/a.jpg'',
           Draw_text (529, 378) ''2023-11-14'' (0, 0, 0),
           Draw_text (529, 380) ''2023-11-14'' (0, 0, 0),
           Draw_text (531, 378) ''2023-11-14'' (0, 0, 0),
           Draw_text (531, 380) ''2023-11-14'' (0, 0, 0),
           Draw_text (530, 379) ''2023-11-14'' (255, 255, 255),
           Make_dirs ''/p/p_watermark'',
           Close_image ''/p/a.jpg''])
   \<and> print_msg full_disk_imaging (Msg_error ''/p/a.jpg'' OSError) = Inr ()
   \<and> process_image plain_world full_disk_imaging ''/p/a.jpg'' ''/p/p_watermark'' [] ''20''
         ''white'' ''bottom-right''
       = (Inr False,
          [Open_image ''/p/a.jpg'', Close_image ''/p/a.jpg'',
           Open_image ''/p/a.jpg'',
           Draw_text (529, 378) ''2023-11-14'' (0, 0, 0),
           Draw_text (529, 380) ''2023-11-14'' (0, 0, 0),
           Draw_text (531, 378) ''2023-11-14'' (0, 0, 0),
           Draw_text (531, 380) ''2023-11-14'' (0, 0, 0),
           Draw_text (530, 379) ''2023-11-14'' (255, 255, 255),
           Make_dirs ''/p/p_watermark'',
           Close_image ''/p/a.jpg'',
           Print (Msg_error ''/p/a.jpg'' OSError)])
   \<and> process_image plain_world good_imaging ''/p/a.jpg'' ''/p/p_watermark'' [] ''20''
         ''white'' ''bottom-right''
       = (Inr True,
          [Open_image ''/p/a.jpg'', Close_image ''/p/a.jpg'',
           Open_image ''/p/a.jpg'',
           Draw_text (529, 378) ''2023-11-14'' (0, 0, 0),
           Draw_text (529, 380) ''2023-11-14'' (0, 0, 0),
           Draw_text (531, 378) ''2023-11-14'' (0, 0, 0),
           Draw_text (531, 380) ''2023-11-14'' (0, 0, 0),
           Draw_text (530, 379) ''2023-11-14'' (255, 255, 255),
           Make_dirs ''/p/p_watermark'',
           Save_image ''/p/p_watermark/a_wm.jpg'' (Some 95),
           Print (Msg_saved ''/p/p_watermark/a_wm.jpg''),
           Close_image ''/p/a.jpg''])
   \<and> print_msg (ascii_console unreadable_imaging) (Msg_skip ''/p/a.jpg'')
       = Inl (OtherException ''UnicodeEncodeError'')
   \<and> fst (process_image missing_world (ascii_console unreadable_imaging) ''/p/a.jpg''
         ''/p/p_watermark'' [] ''20'' ''white'' ''bottom-right'')
       = Inl (OtherException ''UnicodeEncodeError'')"
proof -
  let ?p = "''/p/a.jpg''"
  have g: "get_date_string (runtime_of missing_world unreadable_imaging) ?p = Inr None"
    "get_date_string (runtime_of missing_world (ascii_console unreadable_imaging)) ?p = Inr None"
    "get_date_string (runtime_of plain_world full_disk_imaging) ?p = Inr (Some ''2023-11-14'')"
    "get_date_string (runtime_of plain_world good_imaging) ?p = Inr (Some ''2023-11-14'')"
    by (rule runtime_dates [of _ _ OSError], simp add: pillow_read_examples)+
  have e: "date_events missing_world unreadable_imaging ?p = []"
    "date_events missing_world (ascii_console unreadable_imaging) ?p = []"
    "date_events plain_world full_disk_imaging ?p = [Open_image ?p, Close_image ?p]"
    "date_events plain_world good_imaging ?p = [Open_image ?p, Close_image ?p]"
    by (simp_all add: missing_world_def plain_world_def example_date_events
        pillow_read_examples)
  have p: "print_msg unreadable_imaging (Msg_skip ?p) = Inr ()"
    "print_msg full_disk_imaging (Msg_error ?p OSError) = Inr ()"
    "print_msg (ascii_console unreadable_imaging) (Msg_skip ?p)
       = Inl (OtherException ''UnicodeEncodeError'')"
    by (simp_all add: good_imaging_def full_disk_imaging_def unreadable_imaging_def
        ascii_console_def)
  have r: "render_body full_disk_imaging ''2023-11-14'' ?p ''/p/p_watermark'' [] ''20''
         ''white'' ''bottom-right'' [Open_image ?p, Close_image ?p]
       = (Inl OSError,
          [Open_image ?p, Close_image ?p,
           Open_image ?p,
           Draw_text (529, 378) ''2023-11-14'' (0, 0, 0),
           Draw_text (529, 380) ''2023-11-14'' (0, 0, 0),
           Draw_text (531, 378) ''2023-11-14'' (0, 0, 0),
           Draw_text (531, 380) ''2023-11-14'' (0, 0, 0),
           Draw_text (530, 379) ''2023-11-14'' (255, 255, 255),
           Make_dirs ''/p/p_watermark'',
           Close_image ?p])"
    by (simp add: imaging_eval)
  have s: "render_body good_imaging ''2023-11-14'' ?p ''/p/p_watermark'' [] ''20''
         ''white'' ''bottom-right'' [Open_image ?p, Close_image ?p]
       = (Inr True,
          [Open_image ?p, Close_image ?p,
           Open_image ?p,
           Draw_text (529, 378) ''2023-11-14'' (0, 0, 0),
           Draw_text (529, 380) ''2023-11-14'' (0, 0, 0),
           Draw_text (531, 378) ''2023-11-14'' (0, 0, 0),
           Draw_text (531, 380) ''2023-11-14'' (0, 0, 0),
           Draw_text (530, 379) ''2023-11-14'' (255, 255, 255),
           Make_dirs ''/p/p_watermark'',
           Save_image ''/p/p_watermark/a_wm.jpg'' (Some 95),
           Print (Msg_saved ''/p/p_watermark/a_wm.jpg''),
           Close_image ?p])"
    by (simp add: imaging_eval)
  have t: "process_image plain_world good_imaging ?p ''/p/p_watermark'' [] ''20''
         ''white'' ''bottom-right''
       = (Inr True,
          [Open_image ?p, Close_image ?p,
           Open_image ?p,
           Draw_text (529, 378) ''2023-11-14'' (0, 0, 0),
           Draw_text (529, 380) ''2023-11-14'' (0, 0, 0),
           Draw_text (531, 378) ''2023-11-14'' (0, 0, 0),
           Draw_text (531, 380) ''2023-11-14'' (0, 0, 0),
           Draw_text (530, 379) ''2023-11-14'' (255, 255, 255),
           Make_dirs ''/p/p_watermark'',
           Save_image ''/p/p_watermark/a_wm.jpg'' (Some 95),
           Print (Msg_saved ''/p/p_watermark/a_wm.jpg''),
           Close_image ?p])"
    by (simp add: process_image_def g e s date_truthy_def)
  show ?thesis
    using
      process_image_result [where w = missing_world and env = unreadable_imaging
        and path = ?p and out_dir = "''/p/p_watermark''" and font_path = "[]"
        and font_spec = "''20''" and color_str = "''white''" and pos_name = "''bottom-right''"
        and date = None]
      process_image_result [where w = plain_world and env = full_disk_imaging
        and path = ?p and out_dir = "''/p/p_watermark''" and font_path = "[]"
        and font_spec = "''20''" and color_str = "''white''" and pos_name = "''bottom-right''"
        and d = "''2023-11-14''" and e = OSError
        and evs = "[Open_image ?p, Close_image ?p,
           Open_image ?p,
           Draw_text (529, 378) ''2023-11-14'' (0, 0, 0),
           Draw_text (529, 380) ''2023-11-14'' (0, 0, 0),
           Draw_text (531, 378) ''2023-11-14'' (0, 0, 0),
           Draw_text (531, 380) ''2023-11-14'' (0, 0, 0),
           Draw_text (530, 379) ''2023-11-14'' (255, 255, 255),
           Make_dirs ''/p/p_watermark'',
           Close_image ?p]"]
      process_image_result [where w = plain_world and env = good_imaging
        and path = ?p and out_dir = "''/p/p_watermark''" and font_path = "[]"
        and font_spec = "''20''" and color_str = "''white''" and pos_name = "''bottom-right''"]
      process_image_result [where w = missing_world and env = "ascii_console unreadable_imaging"
        and path = ?p and out_dir = "''/p/p_watermark''" and font_path = "[]"
        and font_spec = "''20''" and color_str = "''white''" and pos_name = "''bottom-right''"
        and e' = "OtherException ''UnicodeEncodeError''"]
    by (simp add: g e p r t date_truthy_def)
qed

end
